theory Spec2Isabelle
  imports Complex_Main
begin

section \<open>JavaScript numbers\<close>

text \<open>
  The calculator of \<^verbatim>\<open>src/App.tsx\<close> computes with JavaScript numbers. A number
  is modelled as a finite value, one of the two infinities, or NaN. The special values
  follow ECMAScript: division by zero, \<^verbatim>\<open>Infinity - Infinity\<close>, \<^verbatim>\<open>0 * Infinity\<close>,
  comparisons with NaN, \<^verbatim>\<open>x ** 0\<close>, \<^verbatim>\<open>Math.log\<close> of zero and of negative numbers.

  Finite values are exact reals. A result becomes an infinity where the program's
  rounding gives one: at a magnitude of \<open>2^1024 - 2^970\<close> or more, half a unit in the
  last place above the largest double \<open>maxd = 2^1024 - 2^971\<close>. What is not
  modelled: the rounding of the mantissa, underflow, and the sign of zero (a division
  by zero takes the sign of the dividend). The statements below say so where it matters.
\<close>

datatype jsnum = Fin real | PInf | NInf | NaN

definition maxd :: real where
  "maxd = 2 ^ 1024 - 2 ^ 971"

definition ovf_threshold :: real where
  "ovf_threshold = 2 ^ 1024 - 2 ^ 970"

definition ovf :: "real \<Rightarrow> jsnum" where
  "ovf x =
     (if ovf_threshold \<le> x then PInf else if x \<le> - ovf_threshold then NInf else Fin x)"

fun is_finite :: "jsnum \<Rightarrow> bool" where
  "is_finite (Fin x) = True"
| "is_finite _ = False"

text \<open>An infinity with the sign of a real, NaN when the real is zero.\<close>

definition signed_inf :: "real \<Rightarrow> jsnum" where
  "signed_inf s = (if s = 0 then NaN else if 0 < s then PInf else NInf)"

text \<open>The operator \<^verbatim>\<open>/\<close>; it is written \<open>/\<close> below.\<close>

fun jdiv :: "jsnum \<Rightarrow> jsnum \<Rightarrow> jsnum" where
  "jdiv NaN _ = NaN"
| "jdiv _ NaN = NaN"
| "jdiv PInf (Fin y) = (if 0 \<le> y then PInf else NInf)"
| "jdiv NInf (Fin y) = (if 0 \<le> y then NInf else PInf)"
| "jdiv PInf _ = NaN"
| "jdiv NInf _ = NaN"
| "jdiv (Fin x) PInf = Fin 0"
| "jdiv (Fin x) NInf = Fin 0"
| "jdiv (Fin x) (Fin y) = (if y = 0 then signed_inf x else ovf (x / y))"

instantiation jsnum :: "{plus, minus, uminus, times, inverse, abs, ord}"
begin

fun uminus_jsnum :: "jsnum \<Rightarrow> jsnum" where
  "- Fin x = Fin (- x)"
| "- PInf = NInf"
| "- NInf = PInf"
| "- NaN = NaN"

fun plus_jsnum :: "jsnum \<Rightarrow> jsnum \<Rightarrow> jsnum" where
  "NaN + _ = NaN"
| "_ + NaN = NaN"
| "PInf + NInf = NaN"
| "NInf + PInf = NaN"
| "PInf + _ = PInf"
| "_ + PInf = PInf"
| "NInf + _ = NInf"
| "_ + NInf = NInf"
| "Fin x + Fin y = ovf (x + y)"

definition minus_jsnum :: "jsnum \<Rightarrow> jsnum \<Rightarrow> jsnum" where
  "a - b = a + (- b)" for a b :: jsnum

fun times_jsnum :: "jsnum \<Rightarrow> jsnum \<Rightarrow> jsnum" where
  "NaN * _ = NaN"
| "_ * NaN = NaN"
| "PInf * PInf = PInf"
| "PInf * NInf = NInf"
| "NInf * PInf = NInf"
| "NInf * NInf = PInf"
| "PInf * Fin y = signed_inf y"
| "NInf * Fin y = signed_inf (- y)"
| "Fin x * PInf = signed_inf x"
| "Fin x * NInf = signed_inf (- x)"
| "Fin x * Fin y = ovf (x * y)"

definition divide_jsnum :: "jsnum \<Rightarrow> jsnum \<Rightarrow> jsnum" where
  "divide_jsnum = jdiv"

definition inverse_jsnum :: "jsnum \<Rightarrow> jsnum" where
  "inverse_jsnum = jdiv (Fin 1)"

fun abs_jsnum :: "jsnum \<Rightarrow> jsnum" where
  "\<bar>Fin x\<bar> = Fin \<bar>x\<bar>"
| "\<bar>PInf\<bar> = PInf"
| "\<bar>NInf\<bar> = PInf"
| "\<bar>NaN\<bar> = NaN"

fun less_jsnum :: "jsnum \<Rightarrow> jsnum \<Rightarrow> bool" where
  "NaN < _ = False"
| "_ < NaN = False"
| "_ < NInf = False"
| "PInf < _ = False"
| "NInf < _ = True"
| "_ < PInf = True"
| "Fin x < Fin y = (x < y)"

fun less_eq_jsnum :: "jsnum \<Rightarrow> jsnum \<Rightarrow> bool" where
  "NaN \<le> _ = False"
| "_ \<le> NaN = False"
| "NInf \<le> _ = True"
| "_ \<le> PInf = True"
| "_ \<le> NInf = False"
| "PInf \<le> _ = False"
| "Fin x \<le> Fin y = (x \<le> y)"

instance ..

end

text \<open>
  \<^verbatim>\<open>base ** exponent\<close>, after Number::exponentiate of ECMAScript, in the order of
  its steps. A negative base with an integral exponent takes its sign from the parity of
  the exponent.
\<close>

definition is_integral :: "real \<Rightarrow> bool" where
  "is_integral y = (y = of_int \<lfloor>y\<rfloor>)"

definition is_odd_integer :: "real \<Rightarrow> bool" where
  "is_odd_integer y = (is_integral y \<and> odd \<lfloor>y\<rfloor>)"

fun jpow :: "jsnum \<Rightarrow> jsnum \<Rightarrow> jsnum" where
  "jpow _ NaN = NaN"
| "jpow b (Fin y) =
     (if y = 0 then Fin 1
      else case b of
        NaN \<Rightarrow> NaN
      | PInf \<Rightarrow> (if 0 < y then PInf else Fin 0)
      | NInf \<Rightarrow> (if 0 < y then (if is_odd_integer y then NInf else PInf) else Fin 0)
      | Fin x \<Rightarrow>
          (if x = 0 then (if 0 < y then Fin 0 else PInf)
           else if 0 < x then ovf (x powr y)
           else if is_integral y
             then ovf ((if is_odd_integer y then - 1 else 1) * ((- x) powr y))
             else NaN))"
| "jpow b PInf =
     (case b of
        NaN \<Rightarrow> NaN
      | PInf \<Rightarrow> PInf
      | NInf \<Rightarrow> PInf
      | Fin x \<Rightarrow>
          (if x = 0 then Fin 0
           else if 1 < \<bar>x\<bar> then PInf else if \<bar>x\<bar> = 1 then NaN else Fin 0))"
| "jpow b NInf =
     (case b of
        NaN \<Rightarrow> NaN
      | PInf \<Rightarrow> Fin 0
      | NInf \<Rightarrow> Fin 0
      | Fin x \<Rightarrow>
          (if x = 0 then PInf
           else if 1 < \<bar>x\<bar> then Fin 0 else if \<bar>x\<bar> = 1 then NaN else PInf))"

text \<open>\<^verbatim>\<open>Math.log\<close>.\<close>

fun jlog :: "jsnum \<Rightarrow> jsnum" where
  "jlog NaN = NaN"
| "jlog NInf = NaN"
| "jlog PInf = PInf"
| "jlog (Fin x) = (if x < 0 then NaN else if x = 0 then NInf else Fin (ln x))"

section \<open>The calculator\<close>

text \<open>
  \<^verbatim>\<open>type PaymentFrequency\<close>, \<^verbatim>\<open>interface CalculatorState\<close> and
  \<^verbatim>\<open>frequencyMap\<close>. The five text fields of the state are read with
  \<^verbatim>\<open>parseFloat\<close> wherever they are used; a field is represented by the number
  \<^verbatim>\<open>parseFloat\<close> reads from it (NaN for an empty or malformed text).
\<close>

datatype PaymentFrequency =
  Monthly | Yearly | Daily | Weekly | SemiMonthly | BiWeekly | SemiAnnually

record CalculatorState =
  presentValue :: jsnum
  futureValue :: jsnum
  interestRate :: jsnum
  numberOfPeriods :: jsnum
  payment :: jsnum
  paymentFrequency :: PaymentFrequency

fun frequencyMap :: "PaymentFrequency \<Rightarrow> jsnum" where
  "frequencyMap Monthly = Fin 12"
| "frequencyMap Yearly = Fin 1"
| "frequencyMap Daily = Fin 365"
| "frequencyMap Weekly = Fin 52"
| "frequencyMap SemiMonthly = Fin 24"
| "frequencyMap BiWeekly = Fin 26"
| "frequencyMap SemiAnnually = Fin 2"

text \<open>\<^verbatim>\<open>keyof CalculatorState\<close>, the argument of \<^verbatim>\<open>solveFor\<close>.\<close>

datatype field =
  PresentValue | FutureValue | InterestRate | NumberOfPeriods | Payment
  | PaymentFrequencyField

text \<open>\<^verbatim>\<open>new Error(message)\<close>, the only exception the program throws.\<close>

datatype error = Error string

definition getEffectiveRate :: "CalculatorState \<Rightarrow> jsnum" where
  "getEffectiveRate st = interestRate st / Fin 100 / frequencyMap (paymentFrequency st)"

subsection \<open>\<^verbatim>\<open>calculateInterestRate\<close>\<close>

definition tolerance :: jsnum where
  "tolerance = Fin (1 / 10 ^ 6)"

definition maxIterations :: nat where
  "maxIterations = 100"

text \<open>The constants \<^verbatim>\<open>f\<close>, \<^verbatim>\<open>df\<close> and \<^verbatim>\<open>newR\<close> of the loop body.\<close>

definition newton_f :: "jsnum \<Rightarrow> jsnum \<Rightarrow> jsnum \<Rightarrow> jsnum \<Rightarrow> jsnum \<Rightarrow> jsnum" where
  "newton_f pv fv n pmt r =
     pv * jpow (Fin 1 + r) n + pmt * (jpow (Fin 1 + r) n - Fin 1) / r + fv"

definition newton_df :: "jsnum \<Rightarrow> jsnum \<Rightarrow> jsnum \<Rightarrow> jsnum \<Rightarrow> jsnum" where
  "newton_df pv n pmt r =
     n * pv * jpow (Fin 1 + r) (n - Fin 1)
     + pmt * (n * jpow (Fin 1 + r) (n - Fin 1) * r - (jpow (Fin 1 + r) n - Fin 1))
       / jpow r (Fin 2)"

definition newR :: "jsnum \<Rightarrow> jsnum \<Rightarrow> jsnum \<Rightarrow> jsnum \<Rightarrow> jsnum \<Rightarrow> jsnum" where
  "newR pv fv n pmt r = r - newton_f pv fv n pmt r / newton_df pv n pmt r"

text \<open>
  The \<^verbatim>\<open>for\<close> loop, from the counter \<open>i\<close> and the current \<open>r\<close>; leaving the
  loop throws.
\<close>

function calculateInterestRate_loop ::
  "CalculatorState \<Rightarrow> jsnum \<Rightarrow> jsnum \<Rightarrow> jsnum \<Rightarrow> jsnum \<Rightarrow> nat \<Rightarrow> jsnum \<Rightarrow> error + jsnum" where
  "calculateInterestRate_loop st pv fv n pmt i r =
     (if i < maxIterations then
        (if \<bar>newR pv fv n pmt r - r\<bar> < tolerance
         then Inr (newR pv fv n pmt r * frequencyMap (paymentFrequency st) * Fin 100)
         else calculateInterestRate_loop st pv fv n pmt (i + 1) (newR pv fv n pmt r))
      else Inl (Error ''Interest rate calculation did not converge''))"
  by pat_completeness auto
termination
  by (relation "measure (\<lambda>(st, pv, fv, n, pmt, i, r). maxIterations - i)") auto

declare calculateInterestRate_loop.simps [simp del]

definition calculateInterestRate ::
  "CalculatorState \<Rightarrow> jsnum \<Rightarrow> jsnum \<Rightarrow> jsnum \<Rightarrow> jsnum \<Rightarrow> error + jsnum" where
  "calculateInterestRate st pv fv n pmt =
     calculateInterestRate_loop st pv fv n pmt 0 (Fin (1 / 10))"

subsection \<open>\<^verbatim>\<open>solveFor\<close>\<close>

text \<open>
  The \<^verbatim>\<open>switch\<close> of \<^verbatim>\<open>solveFor\<close>: the value of the local \<^verbatim>\<open>result\<close>,
  \<open>None\<close> for the \<^verbatim>\<open>default\<close> branch, which returns at once.
\<close>

definition solveFor_result :: "CalculatorState \<Rightarrow> field \<Rightarrow> error + jsnum option" where
  "solveFor_result st fld =
     (let r = getEffectiveRate st;
          n = numberOfPeriods st;
          pv = presentValue st;
          fv = - futureValue st;
          pmt = payment st
      in case fld of
           PresentValue \<Rightarrow>
             Inr (Some ((fv - pmt * (jpow (Fin 1 + r) n - Fin 1) / r) / jpow (Fin 1 + r) n))
         | FutureValue \<Rightarrow>
             Inr (Some (- (pv * jpow (Fin 1 + r) n + pmt * (jpow (Fin 1 + r) n - Fin 1) / r)))
         | InterestRate \<Rightarrow>
             (case calculateInterestRate st pv (- fv) n pmt of
                Inl e \<Rightarrow> Inl e
              | Inr v \<Rightarrow> Inr (Some v))
         | NumberOfPeriods \<Rightarrow>
             Inr (Some (jlog ((fv + pmt / r) / (pv + pmt / r)) / jlog (Fin 1 + r)))
         | Payment \<Rightarrow>
             Inr (Some ((fv - pv * jpow (Fin 1 + r) n) * r / (jpow (Fin 1 + r) n - Fin 1)))
         | PaymentFrequencyField \<Rightarrow> Inr None)"

text \<open>
  \<^verbatim>\<open>x.toFixed(d)\<close> writes \<open>x\<close> with \<open>d\<close> decimals, a tie rounded away from
  zero; a magnitude of \<open>10^21\<close> or more, an infinity and NaN are written as they are.
  The text becomes the field; \<open>toFixed d x\<close> is the number read back from it.
\<close>

fun toFixed :: "nat \<Rightarrow> jsnum \<Rightarrow> jsnum" where
  "toFixed d (Fin x) =
     (if 10 ^ 21 \<le> \<bar>x\<bar> then Fin x
      else Fin (sgn x * of_int \<lfloor>\<bar>x\<bar> * 10 ^ d + 1 / 2\<rfloor> / 10 ^ d))"
| "toFixed d PInf = PInf"
| "toFixed d NInf = NInf"
| "toFixed d NaN = NaN"

text \<open>\<^verbatim>\<open>{ ...prevState, [field]: v }\<close>.\<close>

fun set_field :: "field \<Rightarrow> jsnum \<Rightarrow> CalculatorState \<Rightarrow> CalculatorState" where
  "set_field PresentValue v st = st\<lparr>presentValue := v\<rparr>"
| "set_field FutureValue v st = st\<lparr>futureValue := v\<rparr>"
| "set_field InterestRate v st = st\<lparr>interestRate := v\<rparr>"
| "set_field NumberOfPeriods v st = st\<lparr>numberOfPeriods := v\<rparr>"
| "set_field Payment v st = st\<lparr>payment := v\<rparr>"
| "set_field PaymentFrequencyField v st = st"

text \<open>
  The component's state: \<^verbatim>\<open>state\<close> and \<^verbatim>\<open>lastSolved\<close>. \<^verbatim>\<open>solveFor\<close> returns
  the state after \<^verbatim>\<open>setState\<close> and \<^verbatim>\<open>setLastSolved\<close>, or the exception that
  leaves it.
\<close>

record App =
  state :: CalculatorState
  lastSolved :: "field option"

definition solveFor :: "App \<Rightarrow> field \<Rightarrow> error + App" where
  "solveFor app fld =
     (case solveFor_result (state app) fld of
        Inl e \<Rightarrow> Inl e
      | Inr None \<Rightarrow> Inr app
      | Inr (Some result) \<Rightarrow>
          Inr \<lparr>state = set_field fld
                  (if fld = InterestRate then toFixed 3 result else toFixed 2 result)
                  (state app),
               lastSolved = Some fld\<rparr>)"

text \<open>The test that ends the loop, at the current \<open>r\<close>.\<close>

definition converged :: "jsnum \<Rightarrow> jsnum \<Rightarrow> jsnum \<Rightarrow> jsnum \<Rightarrow> jsnum \<Rightarrow> bool" where
  "converged pv fv n pmt r = (\<bar>newR pv fv n pmt r - r\<bar> < tolerance)"

section \<open>The specification\<close>

text \<open>
  The definitions of this section follow the words of the specification, in the
  arithmetic of the program; the theorems compare them with the program.

  The function \<open>f\<close> and its derivative \<open>f'\<close> of the interest-rate branch, the
  Newton-Raphson sequence \<open>r\<^sub>0 = 0.1\<close>, \<open>r\<^sub>k\<^sub>+\<^sub>1 = r\<^sub>k - f(r\<^sub>k) / f'(r\<^sub>k)\<close>, the
  convergence criterion \<open>|r\<^sub>k\<^sub>+\<^sub>1 - r\<^sub>k| < 1e-6\<close>, and the table \<open>periodsPerYear\<close>.
\<close>

definition spec_f :: "jsnum \<Rightarrow> jsnum \<Rightarrow> jsnum \<Rightarrow> jsnum \<Rightarrow> jsnum \<Rightarrow> jsnum" where
  "spec_f pv fv n pmt r =
     pv * jpow (Fin 1 + r) n + pmt * (jpow (Fin 1 + r) n - Fin 1) / r + fv"

definition spec_df :: "jsnum \<Rightarrow> jsnum \<Rightarrow> jsnum \<Rightarrow> jsnum \<Rightarrow> jsnum" where
  "spec_df pv n pmt r =
     n * pv * jpow (Fin 1 + r) (n - Fin 1)
     + pmt * (n * jpow (Fin 1 + r) (n - Fin 1) * r - (jpow (Fin 1 + r) n - Fin 1)) / (r * r)"

primrec spec_iterate :: "jsnum \<Rightarrow> jsnum \<Rightarrow> jsnum \<Rightarrow> jsnum \<Rightarrow> nat \<Rightarrow> jsnum" where
  "spec_iterate pv fv n pmt 0 = Fin (1 / 10)"
| "spec_iterate pv fv n pmt (Suc k) =
     spec_iterate pv fv n pmt k
     - spec_f pv fv n pmt (spec_iterate pv fv n pmt k)
       / spec_df pv n pmt (spec_iterate pv fv n pmt k)"

definition spec_converged :: "jsnum \<Rightarrow> jsnum \<Rightarrow> jsnum \<Rightarrow> jsnum \<Rightarrow> nat \<Rightarrow> bool" where
  "spec_converged pv fv n pmt k =
     (\<bar>spec_iterate pv fv n pmt (Suc k) - spec_iterate pv fv n pmt k\<bar> < Fin (1 / 10 ^ 6))"

fun periodsPerYear :: "PaymentFrequency \<Rightarrow> real" where
  "periodsPerYear Monthly = 12"
| "periodsPerYear Yearly = 1"
| "periodsPerYear Daily = 365"
| "periodsPerYear Weekly = 52"
| "periodsPerYear SemiMonthly = 24"
| "periodsPerYear BiWeekly = 26"
| "periodsPerYear SemiAnnually = 2"

text \<open>
  The four closed-form branches, with \<open>fv\<close> the negated future value, \<open>r\<close> the
  periodic rate and \<open>n\<close> the number of periods.
\<close>

definition spec_presentValue :: "jsnum \<Rightarrow> jsnum \<Rightarrow> jsnum \<Rightarrow> jsnum \<Rightarrow> jsnum" where
  "spec_presentValue fv pmt r n =
     (fv - pmt * (jpow (Fin 1 + r) n - Fin 1) / r) / jpow (Fin 1 + r) n"

definition spec_futureValue :: "jsnum \<Rightarrow> jsnum \<Rightarrow> jsnum \<Rightarrow> jsnum \<Rightarrow> jsnum" where
  "spec_futureValue pv pmt r n =
     - (pv * jpow (Fin 1 + r) n + pmt * (jpow (Fin 1 + r) n - Fin 1) / r)"

definition spec_numberOfPeriods :: "jsnum \<Rightarrow> jsnum \<Rightarrow> jsnum \<Rightarrow> jsnum \<Rightarrow> jsnum" where
  "spec_numberOfPeriods pv fv pmt r =
     jlog ((fv + pmt / r) / (pv + pmt / r)) / jlog (Fin 1 + r)"

definition spec_payment :: "jsnum \<Rightarrow> jsnum \<Rightarrow> jsnum \<Rightarrow> jsnum \<Rightarrow> jsnum" where
  "spec_payment pv fv r n =
     (fv - pv * jpow (Fin 1 + r) n) * r / (jpow (Fin 1 + r) n - Fin 1)"

text \<open>
  A solve request for the field \<open>fld\<close> has the other four numeric fields as its
  known fields.
\<close>

definition known_fields :: "CalculatorState \<Rightarrow> field \<Rightarrow> jsnum list" where
  "known_fields st fld =
     map snd (filter (\<lambda>(k, v). k \<noteq> fld)
       [(PresentValue, presentValue st), (FutureValue, futureValue st),
        (InterestRate, interestRate st), (NumberOfPeriods, numberOfPeriods st),
        (Payment, payment st)])"

text \<open>
  The same \<open>f\<close> and \<open>f'\<close> as functions on the reals, and the fundamental identity
  \<open>pv * (1 + r)\<^sup>n + pmt * ((1 + r)\<^sup>n - 1) / r + fv = 0\<close> on the reals, where \<open>fv\<close>
  is the future value as the user enters it.
\<close>

definition tvm_f :: "real \<Rightarrow> real \<Rightarrow> real \<Rightarrow> real \<Rightarrow> real \<Rightarrow> real" where
  "tvm_f pv fv n pmt r = pv * (1 + r) powr n + pmt * ((1 + r) powr n - 1) / r + fv"

definition tvm_df :: "real \<Rightarrow> real \<Rightarrow> real \<Rightarrow> real \<Rightarrow> real" where
  "tvm_df pv n pmt r =
     n * pv * (1 + r) powr (n - 1)
     + pmt * (n * (1 + r) powr (n - 1) * r - ((1 + r) powr n - 1)) / r\<^sup>2"

definition tvm_identity :: "real \<Rightarrow> real \<Rightarrow> real \<Rightarrow> real \<Rightarrow> real \<Rightarrow> bool" where
  "tvm_identity pv fv r n pmt \<longleftrightarrow>
     pv * (1 + r) powr n + pmt * ((1 + r) powr n - 1) / r + fv = 0"

text \<open>A real that a double can hold, and "within a relative tolerance of \<open>x\<close>".\<close>

definition in_range :: "real \<Rightarrow> bool" where
  "in_range x \<longleftrightarrow> \<bar>x\<bar> \<le> maxd"

fun within_rel :: "real \<Rightarrow> jsnum \<Rightarrow> real \<Rightarrow> bool" where
  "within_rel tol (Fin y) x = (\<bar>y - x\<bar> \<le> tol * \<bar>x\<bar>)"
| "within_rel tol _ x = False"

section \<open>Arithmetic of the special values\<close>

lemma maxd_pos: "0 < maxd"
  by (simp add: maxd_def)

lemma maxd_less_threshold: "maxd < ovf_threshold"
  by (simp add: maxd_def ovf_threshold_def)

text \<open>
  The largest double and the overflow threshold, written out; concrete inputs are
  evaluated with them.
\<close>

lemma ovf_threshold_numeral:
  "ovf_threshold = 179769313486231580793728971405303415079934132710037826936173778980444968292764750946649017977587207096330286416692887910946555547851940402630657488671505820681908902000708383676273854845817711531764475730270069855571366959622842914819860834936475292719074168444365510704342711559699508093042880177904174497792"
  by (simp add: ovf_threshold_def)

lemma maxd_numeral:
  "maxd = 179769313486231570814527423731704356798070567525844996598917476803157260780028538760589558632766878171540458953514382464234321326889464182768467546703537516986049910576551282076245490090389328944075868508455133942304583236903222948165808559332123348274797826204144723168738177180919299881250404026184124858368"
  by (simp add: maxd_def)

lemmas js_eval = divide_jsnum_def minus_jsnum_def ovf_def signed_inf_def maxd_numeral
  ovf_threshold_numeral

lemma ovf_0 [simp]: "ovf 0 = Fin 0"
  using maxd_pos maxd_less_threshold by (simp add: ovf_def)

lemma uminus_finite [simp]: "is_finite (- a) = is_finite a"
  by (cases a) simp_all

lemma plus_nonfinite_l: "\<not> is_finite a \<Longrightarrow> \<not> is_finite (a + b)"
  by (cases a; cases b) simp_all

lemma plus_nonfinite_r: "\<not> is_finite b \<Longrightarrow> \<not> is_finite (a + b)"
  by (cases a; cases b) simp_all

lemma minus_nonfinite_l: "\<not> is_finite a \<Longrightarrow> \<not> is_finite (a - b)"
  by (simp add: minus_jsnum_def plus_nonfinite_l)

lemma minus_nonfinite_r: "\<not> is_finite b \<Longrightarrow> \<not> is_finite (a - b)"
  by (simp add: minus_jsnum_def plus_nonfinite_r)

lemma abs_nonfinite_not_less: "\<not> is_finite a \<Longrightarrow> \<not> (\<bar>a\<bar> < tolerance)"
  by (cases a) (simp_all add: tolerance_def)

lemma uminus_uminus_jsnum [simp]: "- (- a) = a" for a :: jsnum
  by (cases a) simp_all

lemma jdiv_nonfinite_l: "\<not> is_finite a \<Longrightarrow> \<not> is_finite (a / b)"
  by (cases a; cases b) (simp_all add: divide_jsnum_def)

lemma jdiv_zero_nonfinite: "\<not> is_finite (a / Fin 0)"
  by (cases a) (simp_all add: divide_jsnum_def signed_inf_def)

lemma ovf_not_NaN [simp]: "ovf x \<noteq> NaN"
  by (simp add: ovf_def)

lemma ovf_in_range: "\<bar>x\<bar> \<le> maxd \<Longrightarrow> ovf x = Fin x"
  using maxd_less_threshold by (auto simp: ovf_def)

lemma ppy_pos: "1 \<le> periodsPerYear fq"
  by (cases fq) simp_all

lemma annualize:
  "Fin x * Fin (periodsPerYear fq) * Fin 100 = ovf (x * periodsPerYear fq * 100)"
proof -
  have p: "1 \<le> periodsPerYear fq" by (rule ppy_pos)
  have m: "0 < ovf_threshold" using maxd_pos maxd_less_threshold by linarith
  consider "ovf_threshold \<le> x * periodsPerYear fq"
    | "x * periodsPerYear fq \<le> - ovf_threshold"
    | "\<not> ovf_threshold \<le> x * periodsPerYear fq"
      "\<not> x * periodsPerYear fq \<le> - ovf_threshold"
    by linarith
  then show ?thesis
  proof cases
    case 1
    then have "ovf_threshold \<le> x * periodsPerYear fq * 100" using m by linarith
    then show ?thesis using 1 by (simp add: ovf_def signed_inf_def)
  next
    case 2
    then have "x * periodsPerYear fq * 100 \<le> - ovf_threshold" using m by linarith
    then show ?thesis using 2 m by (simp add: ovf_def signed_inf_def)
  next
    case 3
    then show ?thesis by (simp add: ovf_def)
  qed
qed

lemma plus_NaN_r [simp]: "a + NaN = NaN"
  by (cases a) simp_all

lemma minus_NaN_r [simp]: "a - NaN = NaN"
  by (simp add: minus_jsnum_def)

lemma minus_NaN_l [simp]: "NaN - a = NaN"
  by (simp add: minus_jsnum_def)

lemma times_NaN_r [simp]: "a * NaN = NaN"
  by (cases a) simp_all

lemma divide_NaN_r [simp]: "a / NaN = NaN"
  by (cases a) (simp_all add: divide_jsnum_def)

lemma divide_NaN_l [simp]: "NaN / a = NaN"
  by (simp add: divide_jsnum_def)

lemma divide_nonfinite: "\<not> is_finite a \<Longrightarrow> \<not> is_finite b \<Longrightarrow> a / b = NaN"
  by (cases a; cases b) (simp_all add: divide_jsnum_def)

lemma ovf_1 [simp]: "ovf 1 = Fin 1"
  by (simp add: js_eval)

lemma ovf_range: "in_range x \<Longrightarrow> ovf x = Fin x"
  by (simp add: in_range_def ovf_in_range)

lemma in_range_uminus [simp]: "in_range (- x) = in_range x"
  by (simp add: in_range_def)

lemma in_range_1 [simp]: "in_range 1"
  by (simp add: in_range_def maxd_def)

text \<open>An operation with a finite result had finite operands, and did not overflow.\<close>

lemma ovf_Fin_D: "ovf z = Fin y \<Longrightarrow> y = z"
  by (simp add: ovf_def split: if_splits)

lemma plus_Fin_D:
  assumes "a + b = Fin y"
  obtains p q where "a = Fin p" "b = Fin q" "y = p + q"
  using assms by (cases a; cases b) (auto dest: ovf_Fin_D)

lemma minus_Fin_D:
  assumes "a - b = Fin y"
  obtains p q where "a = Fin p" "b = Fin q" "y = p - q"
  using assms by (cases a; cases b) (auto simp: minus_jsnum_def dest: ovf_Fin_D)

lemma times_Fin_D:
  assumes "a * b = Fin y"
  obtains p q where "a = Fin p" "b = Fin q" "y = p * q"
  using assms by (cases a; cases b) (auto simp: signed_inf_def dest: ovf_Fin_D split: if_splits)

lemma divide_Fin_D:
  assumes "a / Fin x = Fin y" "x \<noteq> 0"
  obtains p where "a = Fin p" "y = p / x"
  using assms by (cases a) (auto simp: divide_jsnum_def dest: ovf_Fin_D split: if_splits)

lemma jpow_Fin_D:
  assumes "jpow (Fin b) (Fin n) = Fin y" "0 < b"
  shows "y = b powr n"
  using assms by (auto dest: ovf_Fin_D split: if_splits)

text \<open>\<^verbatim>\<open>r ** 2\<close> is \<open>r * r\<close>, also at the special values.\<close>

lemma jpow_2: "jpow r (Fin 2) = r * r"
proof (cases r)
  case (Fin x)
  have "is_integral 2" by (simp add: is_integral_def)
  moreover have "\<not> is_odd_integer 2" by (simp add: is_odd_integer_def)
  ultimately show ?thesis
    using Fin by (simp add: power2_eq_square)
qed (simp_all add: is_odd_integer_def)

lemma frequencyMap_periodsPerYear: "frequencyMap fq = Fin (periodsPerYear fq)"
  by (cases fq) simp_all

section \<open>The loop of \<^verbatim>\<open>calculateInterestRate\<close>\<close>

text \<open>A converged step has a finite \<open>r\<close> and a finite \<open>newR\<close>.\<close>

lemma converged_finite:
  assumes "converged pv fv n pmt r"
  shows "is_finite r \<and> is_finite (newR pv fv n pmt r)"
  using assms abs_nonfinite_not_less minus_nonfinite_l minus_nonfinite_r
  unfolding converged_def by blast

lemma newR_nonfinite: "\<not> is_finite r \<Longrightarrow> \<not> is_finite (newR pv fv n pmt r)"
  by (simp add: newR_def minus_nonfinite_l)

lemma funpow_newR_nonfinite:
  "\<not> is_finite r \<Longrightarrow> \<not> is_finite ((newR pv fv n pmt ^^ j) r)"
  by (induction j) (simp_all add: newR_nonfinite)

text \<open>
  The loop entered at counter \<open>i\<close> with \<open>r\<close> returns at the first of its steps that
  meets the tolerance, and throws when none of the steps left does.
\<close>

lemma loop_converges:
  assumes "i + k < maxIterations"
    and "\<forall>j<k. \<not> converged pv fv n pmt ((newR pv fv n pmt ^^ j) r)"
    and "converged pv fv n pmt ((newR pv fv n pmt ^^ k) r)"
  shows "calculateInterestRate_loop st pv fv n pmt i r =
    Inr (newR pv fv n pmt ((newR pv fv n pmt ^^ k) r) * frequencyMap (paymentFrequency st) * Fin 100)"
  using assms
proof (induction k arbitrary: i r)
  case 0
  then show ?case
    by (subst calculateInterestRate_loop.simps) (simp add: converged_def)
next
  case (Suc k)
  have nc: "\<not> converged pv fv n pmt r"
    using Suc.prems(2) by (metis funpow_0 zero_less_Suc)
  have step: "calculateInterestRate_loop st pv fv n pmt i r =
      calculateInterestRate_loop st pv fv n pmt (i + 1) (newR pv fv n pmt r)"
    using nc Suc.prems(1)
    by (subst calculateInterestRate_loop.simps) (simp add: converged_def)
  have "\<forall>j<k. \<not> converged pv fv n pmt ((newR pv fv n pmt ^^ j) (newR pv fv n pmt r))"
  proof (intro allI impI)
    fix j assume "j < k"
    then have "\<not> converged pv fv n pmt ((newR pv fv n pmt ^^ Suc j) r)"
      using Suc.prems(2) [rule_format, of "Suc j"] by simp
    then show "\<not> converged pv fv n pmt ((newR pv fv n pmt ^^ j) (newR pv fv n pmt r))"
      by (simp add: funpow_swap1)
  qed
  moreover have "converged pv fv n pmt ((newR pv fv n pmt ^^ k) (newR pv fv n pmt r))"
    using Suc.prems(3) by (simp add: funpow_swap1)
  moreover have "(i + 1) + k < maxIterations"
    using Suc.prems(1) by simp
  ultimately show ?case
    using Suc.IH [of "i + 1" "newR pv fv n pmt r"] step by (simp add: funpow_swap1)
qed

lemma loop_exhausts:
  assumes "i \<le> maxIterations"
    and "\<forall>j. i + j < maxIterations \<longrightarrow> \<not> converged pv fv n pmt ((newR pv fv n pmt ^^ j) r)"
  shows "calculateInterestRate_loop st pv fv n pmt i r =
    Inl (Error ''Interest rate calculation did not converge'')"
  using assms
proof (induction "maxIterations - i" arbitrary: i r)
  case 0
  then show ?case
    by (subst calculateInterestRate_loop.simps) simp
next
  case (Suc d)
  have lt: "i < maxIterations" using Suc.hyps(2) by simp
  have nc: "\<not> converged pv fv n pmt r"
    using Suc.prems(2) [rule_format, of 0] lt by simp
  have step: "calculateInterestRate_loop st pv fv n pmt i r =
      calculateInterestRate_loop st pv fv n pmt (i + 1) (newR pv fv n pmt r)"
    using nc lt
    by (subst calculateInterestRate_loop.simps) (simp add: converged_def)
  have "\<forall>j. (i + 1) + j < maxIterations \<longrightarrow>
      \<not> converged pv fv n pmt ((newR pv fv n pmt ^^ j) (newR pv fv n pmt r))"
  proof (intro allI impI)
    fix j assume "(i + 1) + j < maxIterations"
    then have "\<not> converged pv fv n pmt ((newR pv fv n pmt ^^ Suc j) r)"
      using Suc.prems(2) [rule_format, of "Suc j"] by simp
    then show "\<not> converged pv fv n pmt ((newR pv fv n pmt ^^ j) (newR pv fv n pmt r))"
      by (simp add: funpow_swap1)
  qed
  moreover have "d = maxIterations - (i + 1)" using Suc.hyps(2) by simp
  moreover have "i + 1 \<le> maxIterations" using lt by simp
  ultimately show ?case
    using Suc.hyps(1) [of "i + 1" "newR pv fv n pmt r"] step by simp
qed

text \<open>The program's step is the specification's, and so are its iterates and its test.\<close>

lemma newR_spec:
  "newR pv fv n pmt r = r - spec_f pv fv n pmt r / spec_df pv n pmt r"
  unfolding newR_def newton_f_def newton_df_def spec_f_def spec_df_def jpow_2 ..

lemma spec_iterate_funpow:
  "spec_iterate pv fv n pmt k = (newR pv fv n pmt ^^ k) (Fin (1 / 10))"
  by (induction k) (simp_all add: newR_spec)

lemma spec_converged_iff:
  "spec_converged pv fv n pmt k = converged pv fv n pmt ((newR pv fv n pmt ^^ k) (Fin (1 / 10)))"
  unfolding spec_converged_def converged_def tolerance_def
  by (simp add: spec_iterate_funpow)

lemma calculateInterestRate_Inr:
  assumes "k < 100" "spec_converged pv fv n pmt k" "\<forall>j<k. \<not> spec_converged pv fv n pmt j"
  shows "calculateInterestRate st pv fv n pmt =
    Inr (spec_iterate pv fv n pmt (Suc k) * Fin (periodsPerYear (paymentFrequency st)) * Fin 100)"
proof -
  have "0 + k < maxIterations" using assms(1) by (simp add: maxIterations_def)
  then show ?thesis
    unfolding calculateInterestRate_def
    using loop_converges [of 0 k pv fv n pmt "Fin (1 / 10)" st] assms(2,3)
    by (simp add: spec_converged_iff spec_iterate_funpow frequencyMap_periodsPerYear)
qed

lemma calculateInterestRate_Inl:
  assumes "\<forall>k<100. \<not> spec_converged pv fv n pmt k"
  shows "calculateInterestRate st pv fv n pmt =
    Inl (Error ''Interest rate calculation did not converge'')"
  unfolding calculateInterestRate_def
  using loop_exhausts [of 0 pv fv n pmt "Fin (1 / 10)" st] assms
  by (simp add: spec_converged_iff maxIterations_def)

lemma first_converged:
  assumes "k < (100::nat)" "spec_converged pv fv n pmt k"
  shows "\<exists>m<100. spec_converged pv fv n pmt m \<and> (\<forall>j<m. \<not> spec_converged pv fv n pmt j)"
proof -
  define m where "m = (LEAST m. spec_converged pv fv n pmt m)"
  have "spec_converged pv fv n pmt m"
    unfolding m_def using assms(2) by (rule LeastI)
  moreover have "m \<le> k"
    unfolding m_def using assms(2) by (rule Least_le)
  moreover have "\<forall>j<m. \<not> spec_converged pv fv n pmt j"
    unfolding m_def using not_less_Least by blast
  ultimately show ?thesis using assms(1) by (intro exI [of _ m]) simp
qed

text \<open>The iterates for \<open>pv = -1000\<close>, \<open>fv = 1010\<close>, \<open>n = 1\<close>, \<open>pmt = 0\<close>.\<close>

lemma iterate_example_1:
  "spec_iterate (Fin (- 1000)) (Fin 1010) (Fin 1) (Fin 0) (Suc 0) = Fin (1 / 100)"
  by (simp add: spec_f_def spec_df_def js_eval)

lemma iterate_example_2:
  "spec_iterate (Fin (- 1000)) (Fin 1010) (Fin 1) (Fin 0) (Suc (Suc 0)) = Fin (1 / 100)"
  unfolding spec_iterate.simps(2) [of _ _ _ _ "Suc 0"] iterate_example_1
  by (simp add: spec_f_def spec_df_def js_eval)

lemma converged_example_0:
  "\<not> spec_converged (Fin (- 1000)) (Fin 1010) (Fin 1) (Fin 0) 0"
  unfolding spec_converged_def iterate_example_1 by (simp add: js_eval)

lemma converged_example_1:
  "spec_converged (Fin (- 1000)) (Fin 1010) (Fin 1) (Fin 0) (Suc 0)"
  unfolding spec_converged_def iterate_example_1 iterate_example_2 by (simp add: js_eval)

text \<open>
  Once an iterate is an infinity or NaN, every later one is, and no later step meets the
  tolerance: the loop runs to its end and throws.
\<close>

lemma spec_converged_finite:
  assumes "spec_converged pv fv n pmt k"
  shows "is_finite (spec_iterate pv fv n pmt k) \<and> is_finite (spec_iterate pv fv n pmt (Suc k))"
  using assms converged_finite [of pv fv n pmt "(newR pv fv n pmt ^^ k) (Fin (1 / 10))"]
  by (simp add: spec_converged_iff spec_iterate_funpow)

lemma spec_iterate_nonfinite:
  assumes "\<not> is_finite (spec_iterate pv fv n pmt k)" "k \<le> j"
  shows "\<not> is_finite (spec_iterate pv fv n pmt j)"
proof -
  have "spec_iterate pv fv n pmt j = (newR pv fv n pmt ^^ (j - k)) (spec_iterate pv fv n pmt k)"
    using assms(2) funpow_add [of "j - k" k "newR pv fv n pmt"]
    by (simp add: spec_iterate_funpow)
  then show ?thesis
    using assms(1) funpow_newR_nonfinite by simp
qed

lemma nonfinite_not_converged:
  assumes "\<not> is_finite (spec_iterate pv fv n pmt k)" "k \<le> Suc j"
  shows "\<not> spec_converged pv fv n pmt j"
  using assms spec_iterate_nonfinite spec_converged_finite by blast

lemma nonfinite_throws:
  assumes "\<forall>j<k. \<not> spec_converged pv fv n pmt j"
    and "\<not> is_finite (spec_iterate pv fv n pmt k)"
  shows "calculateInterestRate st pv fv n pmt =
    Inl (Error ''Interest rate calculation did not converge'')"
proof (rule calculateInterestRate_Inl, intro allI impI)
  fix j :: nat
  show "\<not> spec_converged pv fv n pmt j"
  proof (cases "j < k")
    case True
    then show ?thesis using assms(1) by simp
  next
    case False
    then have "k \<le> Suc j" by simp
    then show ?thesis using assms(2) nonfinite_not_converged by blast
  qed
qed

text \<open>A zero derivative, or a zero rate, at an iterate makes the next one non-finite.\<close>

lemma zero_derivative_step:
  assumes "spec_df pv n pmt (spec_iterate pv fv n pmt k) = Fin 0"
  shows "\<not> is_finite (spec_iterate pv fv n pmt (Suc k))"
  using assms by (simp add: minus_nonfinite_r jdiv_zero_nonfinite)

lemma zero_rate_step:
  assumes "spec_iterate pv fv n pmt k = Fin 0"
  shows "\<not> is_finite (spec_iterate pv fv n pmt (Suc k))"
proof -
  have "\<not> is_finite (spec_f pv fv n pmt (Fin 0))"
    unfolding spec_f_def
    by (intro plus_nonfinite_l plus_nonfinite_r jdiv_zero_nonfinite)
  then show ?thesis
    using assms by (simp add: minus_nonfinite_r jdiv_nonfinite_l)
qed

lemma singular_throws:
  assumes "k < 100"
    and "\<forall>j<k. \<not> spec_converged pv fv n pmt j"
    and "spec_df pv n pmt (spec_iterate pv fv n pmt k) = Fin 0
         \<or> spec_iterate pv fv n pmt k = Fin 0"
  shows "calculateInterestRate st pv fv n pmt =
     Inl (Error ''Interest rate calculation did not converge'')"
proof -
  have nf: "\<not> is_finite (spec_iterate pv fv n pmt (Suc k))"
    using assms(3) zero_derivative_step zero_rate_step by blast
  have "\<not> spec_converged pv fv n pmt k"
    using nf spec_converged_finite by blast
  then have "\<forall>j<Suc k. \<not> spec_converged pv fv n pmt j"
    using assms(2) less_Suc_eq by auto
  then show ?thesis
    using nf nonfinite_throws by blast
qed

lemma spec_df_n_0: "spec_df (Fin pv) (Fin 0) (Fin pmt) (Fin (1 / 10)) = Fin 0"
  by (simp add: spec_df_def js_eval)

lemma converged_value:
  assumes "calculateInterestRate st pv fv n pmt = Inr v"
  shows "\<exists>k<100. spec_converged pv fv n pmt k
           \<and> (\<forall>j<k. \<not> spec_converged pv fv n pmt j)
           \<and> (\<exists>x. spec_iterate pv fv n pmt (Suc k) = Fin x
                \<and> is_finite (spec_iterate pv fv n pmt k)
                \<and> v = Fin x * Fin (periodsPerYear (paymentFrequency st)) * Fin 100
                \<and> v = ovf (x * periodsPerYear (paymentFrequency st) * 100))"
proof -
  have "\<exists>k<100. spec_converged pv fv n pmt k"
  proof (rule ccontr)
    assume "\<not> (\<exists>k<100. spec_converged pv fv n pmt k)"
    then have "\<forall>k<100. \<not> spec_converged pv fv n pmt k" by blast
    then show False using calculateInterestRate_Inl [of pv fv n pmt st] assms by simp
  qed
  then obtain m where m: "m < 100" "spec_converged pv fv n pmt m"
      "\<forall>j<m. \<not> spec_converged pv fv n pmt j"
    using first_converged by blast
  have v: "v = spec_iterate pv fv n pmt (Suc m)
                * Fin (periodsPerYear (paymentFrequency st)) * Fin 100"
    using calculateInterestRate_Inr [OF m, of st] assms by simp
  have fin: "is_finite (spec_iterate pv fv n pmt m)"
      "is_finite (spec_iterate pv fv n pmt (Suc m))"
    using m(2) spec_converged_finite by blast+
  then obtain x where x: "spec_iterate pv fv n pmt (Suc m) = Fin x"
    by (cases "spec_iterate pv fv n pmt (Suc m)") simp_all
  have v1: "v = Fin x * Fin (periodsPerYear (paymentFrequency st)) * Fin 100"
    unfolding v x ..
  have v2: "v = ovf (x * periodsPerYear (paymentFrequency st) * 100)"
    unfolding v1 by (rule annualize)
  from x fin(1) v1 v2
  have "\<exists>x. spec_iterate pv fv n pmt (Suc m) = Fin x
                \<and> is_finite (spec_iterate pv fv n pmt m)
                \<and> v = Fin x * Fin (periodsPerYear (paymentFrequency st)) * Fin 100
                \<and> v = ovf (x * periodsPerYear (paymentFrequency st) * 100)"
    by blast
  with m show ?thesis by blast
qed

lemma iterate_NaN_pv: "\<not> is_finite (spec_iterate NaN fv n pmt (Suc 0))"
  by (simp add: spec_f_def minus_jsnum_def divide_jsnum_def)

lemma solveFor_InterestRate_Inl:
  "solveFor app InterestRate = Inl e \<longleftrightarrow>
     calculateInterestRate (state app) (presentValue (state app)) (futureValue (state app))
       (numberOfPeriods (state app)) (payment (state app)) = Inl e"
  by (simp add: solveFor_def solveFor_result_def Let_def split: sum.splits option.splits)

lemma solveFor_InterestRate_Inr:
  "solveFor app InterestRate = Inr app' \<longleftrightarrow>
     (\<exists>v. calculateInterestRate (state app) (presentValue (state app))
            (futureValue (state app)) (numberOfPeriods (state app)) (payment (state app))
          = Inr v
        \<and> app' = \<lparr>state = (state app)\<lparr>interestRate := toFixed 3 v\<rparr>,
                  lastSolved = Some InterestRate\<rparr>)"
  by (auto simp: solveFor_def solveFor_result_def Let_def split: sum.splits)

lemma toFixed_12: "toFixed 3 (Fin 12) = Fin 12"
proof -
  have "\<lfloor>(12 * 10 ^ 3 + 1 / 2 :: real)\<rfloor> = 12000"
    by (simp add: floor_eq_iff)
  then show ?thesis by simp
qed

lemma example_returns_12:
  "calculateInterestRate st (Fin (- 1000)) (Fin 1010) (Fin 1) (Fin 0)
     = Inr (Fin (1 / 100) * Fin (periodsPerYear (paymentFrequency st)) * Fin 100)"
proof -
  have nc: "\<forall>j<Suc 0. \<not> spec_converged (Fin (- 1000)) (Fin 1010) (Fin 1) (Fin 0) j"
    using converged_example_0 by simp
  have lt: "Suc 0 < 100" by simp
  show ?thesis
    unfolding calculateInterestRate_Inr [OF lt converged_example_1 nc] iterate_example_2 ..
qed

text \<open>
  The iterates for \<open>pv = 2\<^sup>-\<^sup>1\<^sup>0\<^sup>0\<^sup>0\<close>, \<open>fv = -2\<^sup>2\<^sup>0\<close>, \<open>n = 1\<close>, \<open>pmt = 0\<close>: the
  root is \<open>2\<^sup>1\<^sup>0\<^sup>2\<^sup>0 - 1\<close>, a finite number whose annual percentage is not.
\<close>

lemma overflow_iterate_1:
  "spec_iterate (Fin (1 / 2 ^ 1000)) (Fin (- (2 ^ 20))) (Fin 1) (Fin 0) (Suc 0)
     = Fin (2 ^ 1020 - 1)"
  by (simp add: spec_f_def spec_df_def js_eval)

lemma square_overflows:
  assumes "2 ^ 513 \<le> x"
  shows "Fin x * Fin x = PInf"
proof -
  have "(2::real) ^ 513 * 2 ^ 513 \<le> x * x"
    using assms by (intro mult_mono) simp_all
  moreover have "ovf_threshold \<le> (2::real) ^ 513 * 2 ^ 513"
    by (simp add: ovf_threshold_def flip: power_add)
  ultimately have "ovf_threshold \<le> x * x" by linarith
  then show ?thesis by (simp add: ovf_def)
qed

lemma overflow_f_2:
  "spec_f (Fin (1 / 2 ^ 1000)) (Fin (- (2 ^ 20))) (Fin 1) (Fin 0) (Fin (2 ^ 1020 - 1)) = Fin 0"
  by (simp add: spec_f_def js_eval)

lemma overflow_df_2:
  "spec_df (Fin (1 / 2 ^ 1000)) (Fin 1) (Fin 0) (Fin (2 ^ 1020 - 1)) = Fin (1 / 2 ^ 1000)"
proof -
  have rr: "Fin (2 ^ 1020 - 1) * Fin (2 ^ 1020 - 1) = PInf"
    by (rule square_overflows) simp
  show ?thesis
    unfolding spec_df_def rr by (simp add: js_eval)
qed

lemma overflow_iterate_2:
  "spec_iterate (Fin (1 / 2 ^ 1000)) (Fin (- (2 ^ 20))) (Fin 1) (Fin 0) (Suc (Suc 0))
     = Fin (2 ^ 1020 - 1)"
  unfolding spec_iterate.simps(2) [of _ _ _ _ "Suc 0"] overflow_iterate_1
    overflow_f_2 overflow_df_2
  by (simp add: js_eval)

lemma overflow_converged_0:
  "\<not> spec_converged (Fin (1 / 2 ^ 1000)) (Fin (- (2 ^ 20))) (Fin 1) (Fin 0) 0"
  unfolding spec_converged_def overflow_iterate_1 by (simp add: js_eval)

lemma overflow_converged_1:
  "spec_converged (Fin (1 / 2 ^ 1000)) (Fin (- (2 ^ 20))) (Fin 1) (Fin 0) (Suc 0)"
  unfolding spec_converged_def overflow_iterate_1 overflow_iterate_2 by (simp add: js_eval)

section \<open>The periodic rate\<close>

lemma getEffectiveRate_finite:
  assumes "interestRate st = Fin a" "\<bar>a\<bar> \<le> maxd"
  shows "getEffectiveRate st = Fin (a / 100 / periodsPerYear (paymentFrequency st))"
proof -
  have p: "1 \<le> periodsPerYear (paymentFrequency st)" by (rule ppy_pos)
  have a: "\<bar>a / 100\<bar> \<le> maxd" using assms(2) by simp
  have "\<bar>a / 100 / periodsPerYear (paymentFrequency st)\<bar> \<le> \<bar>a / 100\<bar>"
    using p by (simp add: field_simps mult_le_cancel_left1 abs_mult)
  then have b: "\<bar>a / 100 / periodsPerYear (paymentFrequency st)\<bar> \<le> maxd"
    using a by linarith
  have nz: "periodsPerYear (paymentFrequency st) \<noteq> 0" using p by simp
  show ?thesis
    using a b nz
    by (simp add: getEffectiveRate_def assms(1) frequencyMap_periodsPerYear divide_jsnum_def
        ovf_in_range del: abs_divide)
qed

lemma rate_example: "getEffectiveRate
     \<lparr>presentValue = pv, futureValue = fv, interestRate = Fin 12,
      numberOfPeriods = n, payment = pmt, paymentFrequency = Monthly\<rparr> = Fin (1 / 100)"
  by (simp add: getEffectiveRate_def js_eval)

section \<open>\<^verbatim>\<open>solveFor\<close>\<close>

text \<open>At a periodic rate of zero every closed-form branch divides zero by zero.\<close>

lemma zero_rate_quotient: "x * Fin 0 / (jpow (Fin 1) n - Fin 1) = NaN"
  by (cases x; cases n) (simp_all add: js_eval)

lemma zero_rate_annuity: "pmt * (jpow (Fin 1) n - Fin 1) / Fin 0 = NaN"
  by (cases pmt; cases n) (simp_all add: js_eval)

lemma zero_rate_ratio: "(fv + pmt / Fin 0) / (pv + pmt / Fin 0) = NaN"
  by (intro divide_nonfinite plus_nonfinite_r jdiv_zero_nonfinite)

lemma getEffectiveRate_zero:
  assumes "interestRate st = Fin 0"
  shows "getEffectiveRate st = Fin 0"
  using assms by (cases "paymentFrequency st") (simp_all add: getEffectiveRate_def js_eval)

lemma zero_rate_results:
  assumes "interestRate st = Fin 0"
  shows "solveFor_result st PresentValue = Inr (Some NaN)"
    and "solveFor_result st FutureValue = Inr (Some NaN)"
    and "solveFor_result st NumberOfPeriods = Inr (Some NaN)"
    and "solveFor_result st Payment = Inr (Some NaN)"
  by (simp_all add: solveFor_result_def Let_def getEffectiveRate_zero [OF assms]
      zero_rate_quotient zero_rate_annuity zero_rate_ratio)

lemma solveFor_stores:
  assumes "solveFor_result (state app) fld = Inr (Some result)"
  shows "solveFor app fld =
     Inr \<lparr>state = set_field fld
              (toFixed (if fld = InterestRate then 3 else 2) result) (state app),
          lastSolved = Some fld\<rparr>"
  using assms by (simp add: solveFor_def)

text \<open>A closed-form solve always stores a result; only the interest-rate solve can throw.\<close>

lemma getEffectiveRate_NaN:
  "interestRate st = NaN \<Longrightarrow> getEffectiveRate st = NaN"
  by (simp add: getEffectiveRate_def)

lemma closed_form_total:
  assumes "fld \<noteq> InterestRate"
  shows "\<exists>v. solveFor_result st fld = Inr v"
  using assms by (cases fld) (simp_all add: solveFor_result_def Let_def)

lemma solveFor_total:
  assumes "fld \<noteq> InterestRate"
  shows "\<exists>app'. solveFor app fld = Inr app'"
  using closed_form_total [OF assms, of "state app"]
  by (auto simp: solveFor_def split: option.splits)

lemma solveFor_Inl:
  assumes "solveFor app fld = Inl e"
  shows "fld = InterestRate \<and> e = Error ''Interest rate calculation did not converge''"
proof -
  have f: "fld = InterestRate"
    using assms solveFor_total [of fld app] by auto
  then have "calculateInterestRate (state app) (presentValue (state app))
      (futureValue (state app)) (numberOfPeriods (state app)) (payment (state app)) = Inl e"
    using assms solveFor_InterestRate_Inl by simp
  then obtain v where "\<not> (\<exists>k<100. spec_converged (presentValue (state app))
      (futureValue (state app)) (numberOfPeriods (state app)) (payment (state app)) k)"
    using first_converged calculateInterestRate_Inr by (metis Inl_Inr_False)
  then have "calculateInterestRate (state app) (presentValue (state app))
      (futureValue (state app)) (numberOfPeriods (state app)) (payment (state app))
      = Inl (Error ''Interest rate calculation did not converge'')"
    using calculateInterestRate_Inl by blast
  then show ?thesis
    using f \<open>calculateInterestRate _ _ _ _ _ = Inl e\<close> by simp
qed

text \<open>NaN in a known field goes through every branch.\<close>

lemma known_fields_NaN:
  "NaN \<in> set (known_fields st fld) \<longleftrightarrow>
     (fld \<noteq> PresentValue \<and> presentValue st = NaN)
     \<or> (fld \<noteq> FutureValue \<and> futureValue st = NaN)
     \<or> (fld \<noteq> InterestRate \<and> interestRate st = NaN)
     \<or> (fld \<noteq> NumberOfPeriods \<and> numberOfPeriods st = NaN)
     \<or> (fld \<noteq> Payment \<and> payment st = NaN)"
  by (cases fld) (auto simp: known_fields_def)

lemma NaN_presentValue:
  assumes "futureValue st = NaN \<or> interestRate st = NaN
      \<or> numberOfPeriods st = NaN \<or> payment st = NaN"
  shows "solveFor_result st PresentValue = Inr (Some NaN)"
  using assms
  by (elim disjE) (simp_all add: solveFor_result_def Let_def getEffectiveRate_NaN)

lemma NaN_futureValue:
  assumes "presentValue st = NaN \<or> interestRate st = NaN
      \<or> numberOfPeriods st = NaN \<or> payment st = NaN"
  shows "solveFor_result st FutureValue = Inr (Some NaN)"
  using assms
  by (elim disjE) (simp_all add: solveFor_result_def Let_def getEffectiveRate_NaN)

lemma NaN_numberOfPeriods:
  assumes "presentValue st = NaN \<or> futureValue st = NaN
      \<or> interestRate st = NaN \<or> payment st = NaN"
  shows "solveFor_result st NumberOfPeriods = Inr (Some NaN)"
  using assms
  by (elim disjE) (simp_all add: solveFor_result_def Let_def getEffectiveRate_NaN)

lemma NaN_payment:
  assumes "presentValue st = NaN \<or> futureValue st = NaN
      \<or> interestRate st = NaN \<or> numberOfPeriods st = NaN"
  shows "solveFor_result st Payment = Inr (Some NaN)"
  using assms
  by (elim disjE) (simp_all add: solveFor_result_def Let_def getEffectiveRate_NaN)

lemma NaN_closed_forms:
  assumes "NaN \<in> set (known_fields st fld)"
    and "fld = PresentValue \<or> fld = FutureValue \<or> fld = NumberOfPeriods \<or> fld = Payment"
  shows "solveFor_result st fld = Inr (Some NaN)"
proof -
  note k = assms(1) [unfolded known_fields_NaN]
  from assms(2) show ?thesis
  proof (elim disjE)
    assume "fld = PresentValue"
    then show ?thesis using k NaN_presentValue [of st] by blast
  next
    assume "fld = FutureValue"
    then show ?thesis using k NaN_futureValue [of st] by blast
  next
    assume "fld = NumberOfPeriods"
    then show ?thesis using k NaN_numberOfPeriods [of st] by blast
  next
    assume "fld = Payment"
    then show ?thesis using k NaN_payment [of st] by blast
  qed
qed

lemma spec_f_NaN:
  assumes "pv = NaN \<or> fv = NaN \<or> n = NaN \<or> pmt = NaN"
  shows "spec_f pv fv n pmt r = NaN"
  using assms by (auto simp: spec_f_def)

lemma NaN_interest_rate:
  assumes "pv = NaN \<or> fv = NaN \<or> n = NaN \<or> pmt = NaN"
  shows "calculateInterestRate st pv fv n pmt =
     Inl (Error ''Interest rate calculation did not converge'')"
proof -
  have nf: "\<not> is_finite (spec_iterate pv fv n pmt (Suc 0))"
    by (simp add: spec_f_NaN [OF assms])
  have nc: "\<forall>j<Suc 0. \<not> spec_converged pv fv n pmt j"
    using nonfinite_not_converged [OF nf] by simp
  show ?thesis by (rule nonfinite_throws [OF nc nf])
qed

lemma NaN_solveFor_InterestRate:
  assumes "NaN \<in> set (known_fields (state app) InterestRate)"
  shows "solveFor app InterestRate = Inl (Error ''Interest rate calculation did not converge'')"
proof -
  have "presentValue (state app) = NaN \<or> futureValue (state app) = NaN
      \<or> numberOfPeriods (state app) = NaN \<or> payment (state app) = NaN"
    using assms by (simp add: known_fields_NaN)
  then have "calculateInterestRate (state app) (presentValue (state app))
      (futureValue (state app)) (numberOfPeriods (state app)) (payment (state app))
      = Inl (Error ''Interest rate calculation did not converge'')"
    by (rule NaN_interest_rate)
  then show ?thesis
    by (simp only: solveFor_InterestRate_Inl)
qed

text \<open>\<^verbatim>\<open>toFixed\<close> rounds to the nearest multiple of \<open>10\<^sup>-\<^sup>d\<close>.\<close>

lemma toFixed_rounds:
  assumes "\<bar>x\<bar> < 10 ^ 21"
  shows "\<exists>y. toFixed d (Fin x) = Fin y \<and> \<bar>y - x\<bar> \<le> 1 / (2 * 10 ^ d) \<and> y * 10 ^ d \<in> \<int>"
proof -
  define m where "m = \<lfloor>\<bar>x\<bar> * 10 ^ d + 1 / 2\<rfloor>"
  define y where "y = sgn x * of_int m / 10 ^ d"
  have p: "(0::real) < 10 ^ d" by simp
  have t: "toFixed d (Fin x) = Fin y"
    using assms by (simp add: y_def m_def)
  have lo: "of_int m \<le> \<bar>x\<bar> * 10 ^ d + 1 / 2"
    unfolding m_def by (rule of_int_floor_le)
  have hi: "\<bar>x\<bar> * 10 ^ d + 1 / 2 < of_int m + 1"
    unfolding m_def by linarith
  have h: "\<bar>of_int m - \<bar>x\<bar> * 10 ^ d\<bar> \<le> 1 / 2"
    using lo hi by linarith
  have e: "of_int m / 10 ^ d - \<bar>x\<bar> = (of_int m - \<bar>x\<bar> * 10 ^ d) / 10 ^ d"
    using p by (simp add: field_simps)
  have "\<bar>(of_int m - \<bar>x\<bar> * 10 ^ d) / 10 ^ d\<bar> = \<bar>of_int m - \<bar>x\<bar> * 10 ^ d\<bar> / 10 ^ d"
    by simp
  also have "\<dots> \<le> (1 / 2) / 10 ^ d"
    using h p by (intro divide_right_mono) simp_all
  finally have d1: "\<bar>of_int m / 10 ^ d - \<bar>x\<bar>\<bar> \<le> 1 / (2 * 10 ^ d)"
    unfolding e by simp
  have "y - x = sgn x * (of_int m / 10 ^ d - \<bar>x\<bar>)"
    unfolding y_def using mult_sgn_abs [of x] by (simp add: algebra_simps)
  then have "\<bar>y - x\<bar> = \<bar>sgn x\<bar> * \<bar>of_int m / 10 ^ d - \<bar>x\<bar>\<bar>"
    by (simp add: abs_mult)
  also have "\<dots> \<le> 1 * \<bar>of_int m / 10 ^ d - \<bar>x\<bar>\<bar>"
    by (intro mult_right_mono) (simp_all add: abs_sgn_eq)
  finally have d2: "\<bar>y - x\<bar> \<le> 1 / (2 * 10 ^ d)"
    using d1 by simp
  have "y * 10 ^ d = sgn x * of_int m"
    unfolding y_def using p by simp
  moreover have "sgn x \<in> \<int>"
    by (simp add: sgn_real_def)
  ultimately have "y * 10 ^ d \<in> \<int>" by simp
  then show ?thesis using t d2 by blast
qed

lemma rounding_example_result:
  "solveFor_result
     \<lparr>presentValue = Fin (- 1), futureValue = NaN, interestRate = Fin 12,
      numberOfPeriods = Fin 2, payment = Fin 0, paymentFrequency = Monthly\<rparr> FutureValue
   = Inr (Some (Fin (10201 / 10000)))"
  by (simp add: solveFor_result_def rate_example js_eval power2_eq_square)

lemma toFixed_example: "toFixed 2 (Fin (10201 / 10000)) = Fin (51 / 50)"
proof -
  have "\<lfloor>(10201 / 10000 * 100 + 1 / 2 :: real)\<rfloor> = 102"
    by (simp add: floor_eq_iff)
  then show ?thesis by simp
qed

section \<open>\<open>f\<close> and its derivative\<close>

text \<open>On the reals, \<open>tvm_df\<close> is the derivative of \<open>tvm_f\<close> where \<open>1 + r > 0\<close> and \<open>r \<noteq> 0\<close>.\<close>

lemma growth_derivative:
  fixes x n :: real
  assumes "0 < 1 + x"
  shows "((\<lambda>r. (1 + r) powr n) has_real_derivative n * (1 + x) powr (n - 1)) (at x)"
  using assms
  by (auto intro!: derivative_eq_intros simp: powr_diff field_simps)

lemma tvm_f_derivative:
  assumes "0 < 1 + x" "x \<noteq> 0"
  shows "(tvm_f pv fv n pmt has_real_derivative tvm_df pv n pmt x) (at x)"
proof -
  note g = growth_derivative [OF assms(1), of n]
  have g1: "((\<lambda>r. (1 + r) powr n - 1) has_real_derivative n * (1 + x) powr (n - 1)) (at x)"
    using DERIV_diff [OF g DERIV_const [of 1]] by simp
  have a: "((\<lambda>r. pmt * ((1 + r) powr n - 1)) has_real_derivative
      pmt * (n * (1 + x) powr (n - 1))) (at x)"
    by (rule DERIV_cmult [OF g1])
  have q: "((\<lambda>r. pmt * ((1 + r) powr n - 1) / r) has_real_derivative
      (pmt * (n * (1 + x) powr (n - 1)) * x - 1 * (pmt * ((1 + x) powr n - 1)))
        / x ^ Suc (Suc 0)) (at x)"
    by (rule DERIV_quotient [OF a DERIV_ident assms(2)])
  have p: "((\<lambda>r. pv * (1 + r) powr n) has_real_derivative pv * (n * (1 + x) powr (n - 1))) (at x)"
    by (rule DERIV_cmult [OF g])
  have "((\<lambda>r. pv * (1 + r) powr n + pmt * ((1 + r) powr n - 1) / r + fv)
      has_real_derivative
        pv * (n * (1 + x) powr (n - 1))
        + (pmt * (n * (1 + x) powr (n - 1)) * x - 1 * (pmt * ((1 + x) powr n - 1)))
            / x ^ Suc (Suc 0)
        + 0) (at x)"
    by (intro field_differentiable_add p q DERIV_const)
  moreover have "pv * (n * (1 + x) powr (n - 1))
        + (pmt * (n * (1 + x) powr (n - 1)) * x - 1 * (pmt * ((1 + x) powr n - 1)))
            / x ^ Suc (Suc 0)
        + 0 = tvm_df pv n pmt x"
    by (simp add: tvm_df_def power2_eq_square algebra_simps)
  ultimately show ?thesis
    unfolding tvm_f_def [abs_def] by simp
qed

text \<open>
  Where the program's \<open>f\<close> and \<open>df\<close> come out finite, they are the values of the
  real functions.
\<close>

lemma spec_f_agrees:
  assumes f: "spec_f (Fin pv) (Fin fv) (Fin n) (Fin pmt) (Fin x) = Fin y"
    and x: "0 < 1 + x" "x \<noteq> 0" "in_range (1 + x)"
  shows "y = tvm_f pv fv n pmt x"
proof -
  have b: "Fin 1 + Fin x = Fin (1 + x)" using x(3) by (simp add: ovf_range)
  note f' = f [unfolded spec_f_def b]
  from f' obtain s q where s: "Fin pv * jpow (Fin (1 + x)) (Fin n)
      + Fin pmt * (jpow (Fin (1 + x)) (Fin n) - Fin 1) / Fin x = Fin s"
      "Fin fv = Fin q" "y = s + q"
    by (rule plus_Fin_D)
  from s(1) obtain p1 p2 where p: "Fin pv * jpow (Fin (1 + x)) (Fin n) = Fin p1"
      "Fin pmt * (jpow (Fin (1 + x)) (Fin n) - Fin 1) / Fin x = Fin p2" "s = p1 + p2"
    by (rule plus_Fin_D)
  from p(1) obtain a g where g: "Fin pv = Fin a" "jpow (Fin (1 + x)) (Fin n) = Fin g"
      "p1 = a * g"
    by (rule times_Fin_D)
  have gv: "g = (1 + x) powr n" using g(2) x(1) by (rule jpow_Fin_D)
  from p(2) x(2) obtain p3 where p3: "Fin pmt * (Fin g - Fin 1) = Fin p3" "p2 = p3 / x"
    unfolding g(2) by (rule divide_Fin_D)
  from p3(1) obtain c p4 where p4: "Fin pmt = Fin c" "Fin g - Fin 1 = Fin p4" "p3 = c * p4"
    by (rule times_Fin_D)
  from p4(2) obtain u v where u: "Fin g = Fin u" "Fin 1 = Fin v" "p4 = u - v"
    by (rule minus_Fin_D)
  have "q = fv" "a = pv" "c = pmt" "u = g" "v = 1"
    using s(2) g(1) p4(1) u(1,2) by simp_all
  then show ?thesis
    unfolding tvm_f_def s(3) p(3) g(3) p3(2) p4(3) u(3) gv by simp
qed

lemma spec_df_agrees:
  assumes f: "spec_df (Fin pv) (Fin n) (Fin pmt) (Fin x) = Fin y"
    and x: "0 < 1 + x" "x \<noteq> 0" "in_range (1 + x)" "in_range (n - 1)" "in_range (x * x)"
  shows "y = tvm_df pv n pmt x"
proof -
  have b: "Fin 1 + Fin x = Fin (1 + x)" using x(3) by (simp add: ovf_range)
  have m: "Fin n - Fin 1 = Fin (n - 1)"
    using x(4) by (simp add: minus_jsnum_def ovf_range)
  have sq: "Fin x * Fin x = Fin (x * x)" using x(5) by (simp add: ovf_range)
  have sq0: "x * x \<noteq> 0" using x(2) by simp
  note f' = f [unfolded spec_df_def b m sq]
  from f' obtain d1 d2 where d: "Fin n * Fin pv * jpow (Fin (1 + x)) (Fin (n - 1)) = Fin d1"
      "Fin pmt * (Fin n * jpow (Fin (1 + x)) (Fin (n - 1)) * Fin x
         - (jpow (Fin (1 + x)) (Fin n) - Fin 1)) / Fin (x * x) = Fin d2" "y = d1 + d2"
    by (rule plus_Fin_D)
  from d(1) obtain np h where h: "Fin n * Fin pv = Fin np"
      "jpow (Fin (1 + x)) (Fin (n - 1)) = Fin h" "d1 = np * h"
    by (rule times_Fin_D)
  from h(1) obtain a1 a2 where a: "Fin n = Fin a1" "Fin pv = Fin a2" "np = a1 * a2"
    by (rule times_Fin_D)
  have hv: "h = (1 + x) powr (n - 1)" using h(2) x(1) by (rule jpow_Fin_D)
  from d(2) sq0 obtain e1 where e1: "Fin pmt * (Fin n * Fin h * Fin x
         - (jpow (Fin (1 + x)) (Fin n) - Fin 1)) = Fin e1" "d2 = e1 / (x * x)"
    unfolding h(2) by (rule divide_Fin_D)
  from e1(1) obtain c e2 where e2: "Fin pmt = Fin c" "Fin n * Fin h * Fin x
         - (jpow (Fin (1 + x)) (Fin n) - Fin 1) = Fin e2" "e1 = c * e2"
    by (rule times_Fin_D)
  from e2(2) obtain e3 e4 where e3: "Fin n * Fin h * Fin x = Fin e3"
      "jpow (Fin (1 + x)) (Fin n) - Fin 1 = Fin e4" "e2 = e3 - e4"
    by (rule minus_Fin_D)
  from e3(1) obtain e5 x' where e5: "Fin n * Fin h = Fin e5" "Fin x = Fin x'" "e3 = e5 * x'"
    by (rule times_Fin_D)
  from e5(1) obtain b1 b2 where bb: "Fin n = Fin b1" "Fin h = Fin b2" "e5 = b1 * b2"
    by (rule times_Fin_D)
  from e3(2) obtain g v where g: "jpow (Fin (1 + x)) (Fin n) = Fin g" "Fin 1 = Fin v"
      "e4 = g - v"
    by (rule minus_Fin_D)
  have gv: "g = (1 + x) powr n" using g(1) x(1) by (rule jpow_Fin_D)
  have "a1 = n" "a2 = pv" "c = pmt" "x' = x" "b1 = n" "b2 = h" "v = 1"
    using a(1,2) e2(1) e5(2) bb(1,2) g(2) by simp_all
  then show ?thesis
    unfolding tvm_df_def d(3) h(3) a(3) hv e1(2) e2(3) e3(3) e5(3) bb(3) g(3) gv
    by (simp add: power2_eq_square hv)
qed

lemma calculateInterestRate_Inr_iff:
  "calculateInterestRate st pv fv n pmt = Inr v \<longleftrightarrow>
     (\<exists>k<100. spec_converged pv fv n pmt k
        \<and> (\<forall>j<k. \<not> spec_converged pv fv n pmt j)
        \<and> v = spec_iterate pv fv n pmt (Suc k)
                * Fin (periodsPerYear (paymentFrequency st)) * Fin 100)"
proof
  assume res: "calculateInterestRate st pv fv n pmt = Inr v"
  have "\<exists>k<100. spec_converged pv fv n pmt k"
  proof (rule ccontr)
    assume "\<not> (\<exists>k<100. spec_converged pv fv n pmt k)"
    then have "\<forall>k<100. \<not> spec_converged pv fv n pmt k" by blast
    then show False using calculateInterestRate_Inl [of pv fv n pmt st] res by simp
  qed
  then obtain m where m: "m < 100" "spec_converged pv fv n pmt m"
      "\<forall>j<m. \<not> spec_converged pv fv n pmt j"
    using first_converged by blast
  then show "\<exists>k<100. spec_converged pv fv n pmt k
        \<and> (\<forall>j<k. \<not> spec_converged pv fv n pmt j)
        \<and> v = spec_iterate pv fv n pmt (Suc k)
                * Fin (periodsPerYear (paymentFrequency st)) * Fin 100"
    using calculateInterestRate_Inr [OF m, of st] res by auto
next
  assume "\<exists>k<100. spec_converged pv fv n pmt k
        \<and> (\<forall>j<k. \<not> spec_converged pv fv n pmt j)
        \<and> v = spec_iterate pv fv n pmt (Suc k)
                * Fin (periodsPerYear (paymentFrequency st)) * Fin 100"
  then show "calculateInterestRate st pv fv n pmt = Inr v"
    using calculateInterestRate_Inr by blast
qed

lemma f_example: "spec_f (Fin (- 1000)) (Fin 1010) (Fin 1) (Fin 0) (Fin (1 / 10)) = Fin (- 90)"
  by (simp add: spec_f_def js_eval)

lemma df_example: "spec_df (Fin (- 1000)) (Fin 1) (Fin 0) (Fin (1 / 10)) = Fin (- 1000)"
  by (simp add: spec_df_def js_eval)

section \<open>Claims\<close>

text \<open>
  C4. The interest-rate solver is Newton-Raphson on \<open>f\<close>: from \<open>r\<^sub>0 = 0.1\<close> it takes
  the steps \<open>r\<^sub>k\<^sub>+\<^sub>1 = r\<^sub>k - f(r\<^sub>k) / f'(r\<^sub>k)\<close>, at most 100 of them, stops at the first
  \<open>k\<close> with \<open>|r\<^sub>k\<^sub>+\<^sub>1 - r\<^sub>k| < 1e-6\<close>, and returns \<open>r\<^sub>k\<^sub>+\<^sub>1 * periodsPerYear * 100\<close>
  there: it returns \<open>v\<close> exactly when \<open>v\<close> is that value for the first such \<open>k\<close>
  below 100. The \<open>f'\<close> of the program is the derivative of \<open>f\<close>: on the reals
  \<open>tvm_df\<close> is the derivative of \<open>tvm_f\<close> where \<open>1 + r > 0\<close> and \<open>r \<noteq> 0\<close>, and a
  finite value of the program's \<open>f\<close>, or \<open>df\<close>, at such an \<open>r\<close> is the value of
  \<open>tvm_f\<close>, or \<open>tvm_df\<close> (rounding is not modelled).
\<close>

theorem calculateInterestRate_newton:
  "(calculateInterestRate st pv fv n pmt = Inr v \<longleftrightarrow>
     (\<exists>k<100. spec_converged pv fv n pmt k
        \<and> (\<forall>j<k. \<not> spec_converged pv fv n pmt j)
        \<and> v = spec_iterate pv fv n pmt (Suc k)
                * Fin (periodsPerYear (paymentFrequency st)) * Fin 100))
   \<and> (0 < 1 + x \<and> x \<noteq> 0 \<longrightarrow>
        (tvm_f a b c d has_real_derivative tvm_df a c d x) (at x))
   \<and> (0 < 1 + x \<and> x \<noteq> 0 \<and> in_range (1 + x)
        \<and> spec_f (Fin a) (Fin b) (Fin c) (Fin d) (Fin x) = Fin y
      \<longrightarrow> y = tvm_f a b c d x)
   \<and> (0 < 1 + x \<and> x \<noteq> 0 \<and> in_range (1 + x) \<and> in_range (c - 1) \<and> in_range (x * x)
        \<and> spec_df (Fin a) (Fin c) (Fin d) (Fin x) = Fin y'
      \<longrightarrow> y' = tvm_df a c d x)"
proof (intro conjI impI)
  show "calculateInterestRate st pv fv n pmt = Inr v \<longleftrightarrow>
     (\<exists>k<100. spec_converged pv fv n pmt k
        \<and> (\<forall>j<k. \<not> spec_converged pv fv n pmt j)
        \<and> v = spec_iterate pv fv n pmt (Suc k)
                * Fin (periodsPerYear (paymentFrequency st)) * Fin 100)"
    by (rule calculateInterestRate_Inr_iff)
  show "(tvm_f a b c d has_real_derivative tvm_df a c d x) (at x)"
    if "0 < 1 + x \<and> x \<noteq> 0"
    using that by (intro tvm_f_derivative) simp_all
  show "y = tvm_f a b c d x"
    if "0 < 1 + x \<and> x \<noteq> 0 \<and> in_range (1 + x)
        \<and> spec_f (Fin a) (Fin b) (Fin c) (Fin d) (Fin x) = Fin y"
    using that by (intro spec_f_agrees) simp_all
  show "y' = tvm_df a c d x"
    if "0 < 1 + x \<and> x \<noteq> 0 \<and> in_range (1 + x) \<and> in_range (c - 1) \<and> in_range (x * x)
        \<and> spec_df (Fin a) (Fin c) (Fin d) (Fin x) = Fin y'"
    using that by (intro spec_df_agrees) simp_all
qed

text \<open>
  With \<open>pv = -1000\<close>, \<open>fv = 1010\<close>, \<open>n = 1\<close>, \<open>pmt = 0\<close>, monthly: the first step
  goes from 0.1 to 0.01, the second stays there, and the solver returns 12; at 0.1,
  \<open>f = -90\<close> and \<open>f' = -1000\<close>.
\<close>

theorem calculateInterestRate_newton_witness:
  "calculateInterestRate
     \<lparr>presentValue = Fin (- 1000), futureValue = Fin 1010, interestRate = NaN,
      numberOfPeriods = Fin 1, payment = Fin 0, paymentFrequency = Monthly\<rparr>
     (Fin (- 1000)) (Fin 1010) (Fin 1) (Fin 0) = Inr (Fin 12)
   \<and> (tvm_f (- 1000) 1010 1 0 has_real_derivative tvm_df (- 1000) 1 0 (1 / 10)) (at (1 / 10))
   \<and> spec_f (Fin (- 1000)) (Fin 1010) (Fin 1) (Fin 0) (Fin (1 / 10)) = Fin (- 90)
   \<and> - 90 = tvm_f (- 1000) 1010 1 0 (1 / 10)
   \<and> spec_df (Fin (- 1000)) (Fin 1) (Fin 0) (Fin (1 / 10)) = Fin (- 1000)
   \<and> - 1000 = tvm_df (- 1000) 1 0 (1 / 10)"
proof -
  let ?st = "\<lparr>presentValue = Fin (- 1000), futureValue = Fin 1010, interestRate = NaN,
      numberOfPeriods = Fin 1, payment = Fin 0, paymentFrequency = Monthly\<rparr>"
  have nc: "\<forall>j<Suc 0. \<not> spec_converged (Fin (- 1000)) (Fin 1010) (Fin 1) (Fin 0) j"
    using converged_example_0 by simp
  have v: "Fin 12 = spec_iterate (Fin (- 1000)) (Fin 1010) (Fin 1) (Fin 0) (Suc (Suc 0))
      * Fin (periodsPerYear (paymentFrequency ?st)) * Fin 100"
    unfolding iterate_example_2 by (simp add: js_eval)
  have lt: "Suc 0 < 100" by simp
  from lt converged_example_1 nc v
  have "\<exists>k<100. spec_converged (Fin (- 1000)) (Fin 1010) (Fin 1) (Fin 0) k
        \<and> (\<forall>j<k. \<not> spec_converged (Fin (- 1000)) (Fin 1010) (Fin 1) (Fin 0) j)
        \<and> Fin 12 = spec_iterate (Fin (- 1000)) (Fin 1010) (Fin 1) (Fin 0) (Suc k)
                * Fin (periodsPerYear (paymentFrequency ?st)) * Fin 100"
    by blast
  then have c1: "calculateInterestRate ?st (Fin (- 1000)) (Fin 1010) (Fin 1) (Fin 0)
      = Inr (Fin 12)"
    by (simp only: calculateInterestRate_newton [THEN conjunct1])
  have h: "(0::real) < 1 + 1 / 10" "(1 / 10 :: real) \<noteq> 0" "in_range (1 + 1 / 10)"
      "in_range (1 - 1)" "in_range (1 / 10 * (1 / 10))"
    by (simp_all add: in_range_def maxd_numeral)
  have c2: "(tvm_f (- 1000) 1010 1 0 has_real_derivative tvm_df (- 1000) 1 0 (1 / 10))
      (at (1 / 10))"
    using calculateInterestRate_newton [THEN conjunct2, THEN conjunct1, of "1 / 10"] h(1,2)
    by blast
  have c3: "- 90 = tvm_f (- 1000) 1010 1 0 (1 / 10)"
    using calculateInterestRate_newton [THEN conjunct2, THEN conjunct2, THEN conjunct1,
        of "1 / 10" "- 1000" 1010 1 0 "- 90"] h(1,2,3) f_example
    by blast
  have c4: "- 1000 = tvm_df (- 1000) 1 0 (1 / 10)"
    using calculateInterestRate_newton [THEN conjunct2, THEN conjunct2, THEN conjunct2,
        of "1 / 10" 1 "- 1000" 0 "- 1000"] h f_example df_example
    by blast
  from c1 c2 f_example c3 df_example c4 show ?thesis by (intro conjI)
qed

text \<open>
  C5. The interest-rate solve returns within its 100 iterations or fails. It throws the
  error "Interest rate calculation did not converge", and nothing else, exactly when
  none of the 100 steps meets the tolerance. It returns a value exactly when one of them
  does, and the value it returns is the converged one, \<open>r\<^sub>k\<^sub>+\<^sub>1 * periodsPerYear * 100\<close>
  at the first step \<open>k\<close> that meets the tolerance: never a guess after the last step.
  \<^verbatim>\<open>solveFor\<close> does not catch the error, which leaves \<^verbatim>\<open>solveFor\<close> as it left
  \<^verbatim>\<open>calculateInterestRate\<close>, and on success it stores that value with three decimals.
\<close>

theorem calculateInterestRate_nonconvergence:
  "(calculateInterestRate st pv fv n pmt = Inl e \<longleftrightarrow>
      e = Error ''Interest rate calculation did not converge''
      \<and> (\<forall>k<100. \<not> spec_converged pv fv n pmt k))
   \<and> ((\<exists>v. calculateInterestRate st pv fv n pmt = Inr v) \<longleftrightarrow>
      (\<exists>k<100. spec_converged pv fv n pmt k))
   \<and> (calculateInterestRate st pv fv n pmt = Inr v \<longleftrightarrow>
      (\<exists>k<100. spec_converged pv fv n pmt k
         \<and> (\<forall>j<k. \<not> spec_converged pv fv n pmt j)
         \<and> v = spec_iterate pv fv n pmt (Suc k)
                 * Fin (periodsPerYear (paymentFrequency st)) * Fin 100))
   \<and> (solveFor app InterestRate = Inl e \<longleftrightarrow>
      calculateInterestRate (state app) (presentValue (state app)) (futureValue (state app))
        (numberOfPeriods (state app)) (payment (state app)) = Inl e)
   \<and> (solveFor app InterestRate = Inr app' \<longleftrightarrow>
      (\<exists>w. calculateInterestRate (state app) (presentValue (state app))
             (futureValue (state app)) (numberOfPeriods (state app)) (payment (state app))
           = Inr w
         \<and> app' = \<lparr>state = (state app)\<lparr>interestRate := toFixed 3 w\<rparr>,
                   lastSolved = Some InterestRate\<rparr>))"
proof (intro conjI)
  show "calculateInterestRate st pv fv n pmt = Inl e \<longleftrightarrow>
      e = Error ''Interest rate calculation did not converge''
      \<and> (\<forall>k<100. \<not> spec_converged pv fv n pmt k)"
  proof (cases "\<exists>k<100. spec_converged pv fv n pmt k")
    case True
    then obtain m where "m < 100" "spec_converged pv fv n pmt m"
        "\<forall>j<m. \<not> spec_converged pv fv n pmt j"
      using first_converged by blast
    then have "\<exists>v. calculateInterestRate st pv fv n pmt = Inr v"
      using calculateInterestRate_Inr by blast
    then show ?thesis using True by auto
  next
    case False
    then have "\<forall>k<100. \<not> spec_converged pv fv n pmt k" by blast
    then show ?thesis using calculateInterestRate_Inl [of pv fv n pmt st] by auto
  qed
  show "(\<exists>v. calculateInterestRate st pv fv n pmt = Inr v) \<longleftrightarrow>
      (\<exists>k<100. spec_converged pv fv n pmt k)"
  proof (cases "\<exists>k<100. spec_converged pv fv n pmt k")
    case True
    then obtain m where "m < 100" "spec_converged pv fv n pmt m"
        "\<forall>j<m. \<not> spec_converged pv fv n pmt j"
      using first_converged by blast
    then have "\<exists>v. calculateInterestRate st pv fv n pmt = Inr v"
      using calculateInterestRate_Inr by blast
    then show ?thesis using True by simp
  next
    case False
    then have "\<forall>k<100. \<not> spec_converged pv fv n pmt k" by blast
    then show ?thesis using calculateInterestRate_Inl [of pv fv n pmt st] False by auto
  qed
  show "calculateInterestRate st pv fv n pmt = Inr v \<longleftrightarrow>
      (\<exists>k<100. spec_converged pv fv n pmt k
         \<and> (\<forall>j<k. \<not> spec_converged pv fv n pmt j)
         \<and> v = spec_iterate pv fv n pmt (Suc k)
                 * Fin (periodsPerYear (paymentFrequency st)) * Fin 100)"
    by (rule calculateInterestRate_Inr_iff)
  show "solveFor app InterestRate = Inl e \<longleftrightarrow>
      calculateInterestRate (state app) (presentValue (state app)) (futureValue (state app))
        (numberOfPeriods (state app)) (payment (state app)) = Inl e"
    by (rule solveFor_InterestRate_Inl)
  show "solveFor app InterestRate = Inr app' \<longleftrightarrow>
      (\<exists>w. calculateInterestRate (state app) (presentValue (state app))
             (futureValue (state app)) (numberOfPeriods (state app)) (payment (state app))
           = Inr w
         \<and> app' = \<lparr>state = (state app)\<lparr>interestRate := toFixed 3 w\<rparr>,
                   lastSolved = Some InterestRate\<rparr>)"
    by (rule solveFor_InterestRate_Inr)
qed

text \<open>
  With an empty present value every iterate is NaN, and the solve throws. With
  \<open>pv = -1000\<close>, \<open>fv = 1010\<close>, \<open>n = 1\<close>, \<open>pmt = 0\<close>, monthly, the second step meets
  the tolerance at \<open>r = 0.01\<close>; the solve returns 12 and \<^verbatim>\<open>solveFor\<close> stores it.
\<close>

theorem calculateInterestRate_nonconvergence_witness:
  "solveFor
     \<lparr>state = \<lparr>presentValue = NaN, futureValue = Fin 1010, interestRate = NaN,
        numberOfPeriods = Fin 1, payment = Fin 0, paymentFrequency = Monthly\<rparr>,
      lastSolved = None\<rparr> InterestRate
   = Inl (Error ''Interest rate calculation did not converge'')
   \<and> \<not> spec_converged (Fin (- 1000)) (Fin 1010) (Fin 1) (Fin 0) 0
   \<and> spec_converged (Fin (- 1000)) (Fin 1010) (Fin 1) (Fin 0) (Suc 0)
   \<and> spec_iterate (Fin (- 1000)) (Fin 1010) (Fin 1) (Fin 0) (Suc (Suc 0)) = Fin (1 / 100)
   \<and> calculateInterestRate
     \<lparr>presentValue = Fin (- 1000), futureValue = Fin 1010, interestRate = NaN,
      numberOfPeriods = Fin 1, payment = Fin 0, paymentFrequency = Monthly\<rparr>
     (Fin (- 1000)) (Fin 1010) (Fin 1) (Fin 0) = Inr (Fin 12)
   \<and> solveFor
     \<lparr>state = \<lparr>presentValue = Fin (- 1000), futureValue = Fin 1010, interestRate = NaN,
        numberOfPeriods = Fin 1, payment = Fin 0, paymentFrequency = Monthly\<rparr>,
      lastSolved = None\<rparr> InterestRate
   = Inr \<lparr>state = \<lparr>presentValue = Fin (- 1000), futureValue = Fin 1010,
        interestRate = Fin 12, numberOfPeriods = Fin 1, payment = Fin 0,
        paymentFrequency = Monthly\<rparr>,
      lastSolved = Some InterestRate\<rparr>"
proof -
  let ?bad = "\<lparr>presentValue = NaN, futureValue = Fin 1010, interestRate = NaN,
        numberOfPeriods = Fin 1, payment = Fin 0, paymentFrequency = Monthly\<rparr>"
  let ?st = "\<lparr>presentValue = Fin (- 1000), futureValue = Fin 1010, interestRate = NaN,
        numberOfPeriods = Fin 1, payment = Fin 0, paymentFrequency = Monthly\<rparr>"
  let ?msg = "Error ''Interest rate calculation did not converge''"
  have "\<forall>k<100. \<not> spec_converged NaN (Fin 1010) (Fin 1) (Fin 0) k"
    using nonfinite_not_converged [OF iterate_NaN_pv] by simp
  then have "?msg = ?msg \<and> (\<forall>k<100. \<not> spec_converged NaN (Fin 1010) (Fin 1) (Fin 0) k)"
    by simp
  then have b1: "calculateInterestRate ?bad NaN (Fin 1010) (Fin 1) (Fin 0) = Inl ?msg"
    by (rule calculateInterestRate_nonconvergence [THEN conjunct1, THEN iffD2])
  have "calculateInterestRate (state \<lparr>state = ?bad, lastSolved = None\<rparr>)
      (presentValue (state \<lparr>state = ?bad, lastSolved = None\<rparr>))
      (futureValue (state \<lparr>state = ?bad, lastSolved = None\<rparr>))
      (numberOfPeriods (state \<lparr>state = ?bad, lastSolved = None\<rparr>))
      (payment (state \<lparr>state = ?bad, lastSolved = None\<rparr>)) = Inl ?msg"
    using b1 by simp
  then have c1: "solveFor \<lparr>state = ?bad, lastSolved = None\<rparr> InterestRate = Inl ?msg"
    by (rule calculateInterestRate_nonconvergence
        [THEN conjunct2, THEN conjunct2, THEN conjunct2, THEN conjunct1, THEN iffD2])
  have nc: "\<forall>j<Suc 0. \<not> spec_converged (Fin (- 1000)) (Fin 1010) (Fin 1) (Fin 0) j"
    using converged_example_0 by simp
  have v: "Fin 12 = spec_iterate (Fin (- 1000)) (Fin 1010) (Fin 1) (Fin 0) (Suc (Suc 0))
      * Fin (periodsPerYear (paymentFrequency ?st)) * Fin 100"
    unfolding iterate_example_2 by (simp add: js_eval)
  have lt: "Suc 0 < 100" by simp
  from lt converged_example_1 nc v
  have "\<exists>k<100. spec_converged (Fin (- 1000)) (Fin 1010) (Fin 1) (Fin 0) k
        \<and> (\<forall>j<k. \<not> spec_converged (Fin (- 1000)) (Fin 1010) (Fin 1) (Fin 0) j)
        \<and> Fin 12 = spec_iterate (Fin (- 1000)) (Fin 1010) (Fin 1) (Fin 0) (Suc k)
                * Fin (periodsPerYear (paymentFrequency ?st)) * Fin 100"
    by blast
  then have c2: "calculateInterestRate ?st (Fin (- 1000)) (Fin 1010) (Fin 1) (Fin 0)
      = Inr (Fin 12)"
    by (rule calculateInterestRate_nonconvergence
        [THEN conjunct2, THEN conjunct2, THEN conjunct1, THEN iffD2])
  have "\<exists>w. calculateInterestRate (state \<lparr>state = ?st, lastSolved = None\<rparr>)
      (presentValue (state \<lparr>state = ?st, lastSolved = None\<rparr>))
      (futureValue (state \<lparr>state = ?st, lastSolved = None\<rparr>))
      (numberOfPeriods (state \<lparr>state = ?st, lastSolved = None\<rparr>))
      (payment (state \<lparr>state = ?st, lastSolved = None\<rparr>)) = Inr w
    \<and> \<lparr>state = \<lparr>presentValue = Fin (- 1000), futureValue = Fin 1010,
        interestRate = Fin 12, numberOfPeriods = Fin 1, payment = Fin 0,
        paymentFrequency = Monthly\<rparr>,
      lastSolved = Some InterestRate\<rparr>
      = \<lparr>state = (state \<lparr>state = ?st, lastSolved = None\<rparr>)\<lparr>interestRate := toFixed 3 w\<rparr>,
         lastSolved = Some InterestRate\<rparr>"
    using c2 toFixed_12 by (intro exI [of _ "Fin 12"]) simp
  then have c3: "solveFor \<lparr>state = ?st, lastSolved = None\<rparr> InterestRate
      = Inr \<lparr>state = \<lparr>presentValue = Fin (- 1000), futureValue = Fin 1010,
        interestRate = Fin 12, numberOfPeriods = Fin 1, payment = Fin 0,
        paymentFrequency = Monthly\<rparr>,
      lastSolved = Some InterestRate\<rparr>"
    by (rule calculateInterestRate_nonconvergence
        [THEN conjunct2, THEN conjunct2, THEN conjunct2, THEN conjunct2, THEN iffD2])
  from c1 converged_example_0 converged_example_1 iterate_example_2 c2 c3
  show ?thesis by (intro conjI)
qed

text \<open>
  C3, as the program has it. The program has no DivisionSingularity condition. When
  the derivative is exactly zero at an iterate the loop reaches (as it is at the first
  iterate for \<open>n = 0\<close> and finite \<open>pv\<close>, \<open>pmt\<close>), or when an iterate is zero, the
  quotient \<open>f / f'\<close> is an infinity or NaN, no step meets the tolerance any more, and
  the solve fails with the non-convergence error after its 100 iterations.
\<close>

theorem zero_derivative_throws:
  "(k < 100 \<and> (\<forall>j<k. \<not> spec_converged pv fv n pmt j)
      \<and> (spec_df pv n pmt (spec_iterate pv fv n pmt k) = Fin 0
         \<or> spec_iterate pv fv n pmt k = Fin 0)
     \<longrightarrow> calculateInterestRate st pv fv n pmt =
          Inl (Error ''Interest rate calculation did not converge''))
   \<and> spec_df (Fin a) (Fin 0) (Fin b) (spec_iterate (Fin a) fv' (Fin 0) (Fin b) 0) = Fin 0
   \<and> calculateInterestRate st (Fin a) fv' (Fin 0) (Fin b) =
          Inl (Error ''Interest rate calculation did not converge'')"
proof (intro conjI impI)
  assume "k < 100 \<and> (\<forall>j<k. \<not> spec_converged pv fv n pmt j)
      \<and> (spec_df pv n pmt (spec_iterate pv fv n pmt k) = Fin 0
         \<or> spec_iterate pv fv n pmt k = Fin 0)"
  then show "calculateInterestRate st pv fv n pmt =
          Inl (Error ''Interest rate calculation did not converge'')"
    using singular_throws by blast
next
  show d0: "spec_df (Fin a) (Fin 0) (Fin b) (spec_iterate (Fin a) fv' (Fin 0) (Fin b) 0) = Fin 0"
    by (simp add: spec_df_n_0)
  show "calculateInterestRate st (Fin a) fv' (Fin 0) (Fin b) =
          Inl (Error ''Interest rate calculation did not converge'')"
    using singular_throws [of 0 "Fin a" fv' "Fin 0" "Fin b" st] d0 by simp
qed

text \<open>At \<open>pv = 1000\<close>, \<open>fv = 1000\<close>, \<open>n = 0\<close>, \<open>pmt = 50\<close>.\<close>

theorem zero_derivative_throws_witness:
  "(0::nat) < 100
   \<and> spec_df (Fin 1000) (Fin 0) (Fin 50)
        (spec_iterate (Fin 1000) (Fin 1000) (Fin 0) (Fin 50) 0) = Fin 0
   \<and> calculateInterestRate
       \<lparr>presentValue = Fin 1000, futureValue = Fin 1000, interestRate = NaN,
        numberOfPeriods = Fin 0, payment = Fin 50, paymentFrequency = Monthly\<rparr>
       (Fin 1000) (Fin 1000) (Fin 0) (Fin 50)
     = Inl (Error ''Interest rate calculation did not converge'')"
  using zero_derivative_throws [of 0 "Fin 1000" "Fin 1000" "Fin 0" "Fin 50" _ 1000 50 "Fin 1000"]
  by simp

text \<open>
  C3 as stated fails: with \<open>pv = 1\<close>, \<open>fv = 1\<close>, \<open>n = 0\<close>, \<open>pmt = 0\<close> the
  derivative is zero at the first iterate, and the solve loops to the non-convergence
  error, which the claim excludes.
\<close>

theorem zero_derivative_counterexample:
  "spec_df (Fin 1) (Fin 0) (Fin 0) (spec_iterate (Fin 1) (Fin 1) (Fin 0) (Fin 0) 0) = Fin 0
   \<and> calculateInterestRate
       \<lparr>presentValue = Fin 1, futureValue = Fin 1, interestRate = NaN,
        numberOfPeriods = Fin 0, payment = Fin 0, paymentFrequency = Monthly\<rparr>
       (Fin 1) (Fin 1) (Fin 0) (Fin 0)
     = Inl (Error ''Interest rate calculation did not converge'')"
proof
  show d0: "spec_df (Fin 1) (Fin 0) (Fin 0) (spec_iterate (Fin 1) (Fin 1) (Fin 0) (Fin 0) 0) = Fin 0"
    by (simp add: spec_df_n_0)
  show "calculateInterestRate
       \<lparr>presentValue = Fin 1, futureValue = Fin 1, interestRate = NaN,
        numberOfPeriods = Fin 0, payment = Fin 0, paymentFrequency = Monthly\<rparr>
       (Fin 1) (Fin 1) (Fin 0) (Fin 0)
     = Inl (Error ''Interest rate calculation did not converge'')"
    using singular_throws [of 0 "Fin 1" "Fin 1" "Fin 0" "Fin 0"] d0 by simp
qed

text \<open>
  C10, as the program has it. A value the interest-rate solve returns is never NaN: it
  is \<open>x * periodsPerYear * 100\<close> for the converged iterate \<open>x = r\<^sub>k\<^sub>+\<^sub>1\<close> at the first
  step \<open>k\<close> below 100 that meets the tolerance; \<open>r\<^sub>k\<close> and \<open>r\<^sub>k\<^sub>+\<^sub>1\<close> are finite there,
  and the value is an infinity when the product reaches the overflow threshold. When an
  iterate the loop reaches is an infinity or NaN, the tolerance test never holds again
  and the solve throws.
\<close>

theorem calculateInterestRate_never_NaN:
  "(calculateInterestRate st pv fv n pmt = Inr v \<longrightarrow>
      v \<noteq> NaN
      \<and> (\<exists>k<100. spec_converged pv fv n pmt k
            \<and> (\<forall>j<k. \<not> spec_converged pv fv n pmt j)
            \<and> (\<exists>x. spec_iterate pv fv n pmt (Suc k) = Fin x
                 \<and> is_finite (spec_iterate pv fv n pmt k)
                 \<and> v = Fin x * Fin (periodsPerYear (paymentFrequency st)) * Fin 100
                 \<and> v = ovf (x * periodsPerYear (paymentFrequency st) * 100))))
   \<and> (k < 100 \<and> (\<forall>j<k. \<not> spec_converged pv fv n pmt j)
        \<and> \<not> is_finite (spec_iterate pv fv n pmt k)
      \<longrightarrow> calculateInterestRate st pv fv n pmt =
            Inl (Error ''Interest rate calculation did not converge''))"
proof (intro conjI impI)
  assume res: "calculateInterestRate st pv fv n pmt = Inr v"
  then show ex: "\<exists>k<100. spec_converged pv fv n pmt k
            \<and> (\<forall>j<k. \<not> spec_converged pv fv n pmt j)
            \<and> (\<exists>x. spec_iterate pv fv n pmt (Suc k) = Fin x
                 \<and> is_finite (spec_iterate pv fv n pmt k)
                 \<and> v = Fin x * Fin (periodsPerYear (paymentFrequency st)) * Fin 100
                 \<and> v = ovf (x * periodsPerYear (paymentFrequency st) * 100))"
    by (rule converged_value)
  then obtain x where "v = ovf x" by blast
  then show "v \<noteq> NaN" by simp
next
  assume "k < 100 \<and> (\<forall>j<k. \<not> spec_converged pv fv n pmt j)
        \<and> \<not> is_finite (spec_iterate pv fv n pmt k)"
  then show "calculateInterestRate st pv fv n pmt =
            Inl (Error ''Interest rate calculation did not converge'')"
    using nonfinite_throws by blast
qed

text \<open>The solve that returns 12, and the solve with an empty present value.\<close>

theorem calculateInterestRate_never_NaN_witness:
  "calculateInterestRate
     \<lparr>presentValue = Fin (- 1000), futureValue = Fin 1010, interestRate = NaN,
      numberOfPeriods = Fin 1, payment = Fin 0, paymentFrequency = Monthly\<rparr>
     (Fin (- 1000)) (Fin 1010) (Fin 1) (Fin 0) = Inr (Fin 12)
   \<and> Fin 12 \<noteq> NaN
   \<and> Suc 0 < 100
   \<and> \<not> spec_converged NaN (Fin 1010) (Fin 1) (Fin 0) 0
   \<and> \<not> is_finite (spec_iterate NaN (Fin 1010) (Fin 1) (Fin 0) (Suc 0))
   \<and> calculateInterestRate
     \<lparr>presentValue = NaN, futureValue = Fin 1010, interestRate = NaN,
      numberOfPeriods = Fin 1, payment = Fin 0, paymentFrequency = Monthly\<rparr>
     NaN (Fin 1010) (Fin 1) (Fin 0) = Inl (Error ''Interest rate calculation did not converge'')"
proof -
  have r: "calculateInterestRate
     \<lparr>presentValue = Fin (- 1000), futureValue = Fin 1010, interestRate = NaN,
      numberOfPeriods = Fin 1, payment = Fin 0, paymentFrequency = Monthly\<rparr>
     (Fin (- 1000)) (Fin 1010) (Fin 1) (Fin 0) = Inr (Fin 12)"
    unfolding example_returns_12 by (simp add: js_eval)
  have nn: "Fin 12 \<noteq> NaN"
    using calculateInterestRate_never_NaN [THEN conjunct1, rule_format, OF r] by blast
  have nf: "\<not> is_finite (spec_iterate NaN (Fin 1010) (Fin 1) (Fin 0) (Suc 0))"
    by (rule iterate_NaN_pv)
  have nc: "\<forall>j<Suc 0. \<not> spec_converged NaN (Fin 1010) (Fin 1) (Fin 0) j"
    using nonfinite_not_converged [OF nf] by simp
  have lt: "Suc 0 < 100" by simp
  have t: "calculateInterestRate
     \<lparr>presentValue = NaN, futureValue = Fin 1010, interestRate = NaN,
      numberOfPeriods = Fin 1, payment = Fin 0, paymentFrequency = Monthly\<rparr>
     NaN (Fin 1010) (Fin 1) (Fin 0) = Inl (Error ''Interest rate calculation did not converge'')"
    using calculateInterestRate_never_NaN [THEN conjunct2, rule_format, of "Suc 0"] lt nc nf
    by blast
  have nc0: "\<not> spec_converged NaN (Fin 1010) (Fin 1) (Fin 0) 0"
    using nc by simp
  show ?thesis using r nn lt nc0 nf t by blast
qed

text \<open>
  C10 as stated fails: with \<open>pv = 2\<^sup>-\<^sup>1\<^sup>0\<^sup>0\<^sup>0\<close>, \<open>fv = -2\<^sup>2\<^sup>0\<close>, \<open>n = 1\<close>, \<open>pmt = 0\<close>,
  monthly, the second step meets the tolerance at \<open>r = 2\<^sup>1\<^sup>0\<^sup>2\<^sup>0 - 1\<close>, and
  \<open>r * 12 * 100\<close> is Infinity, which the solve returns.
\<close>

theorem calculateInterestRate_Infinity_counterexample:
  "calculateInterestRate
     \<lparr>presentValue = Fin (1 / 2 ^ 1000), futureValue = Fin (- (2 ^ 20)), interestRate = NaN,
      numberOfPeriods = Fin 1, payment = Fin 0, paymentFrequency = Monthly\<rparr>
     (Fin (1 / 2 ^ 1000)) (Fin (- (2 ^ 20))) (Fin 1) (Fin 0) = Inr PInf"
proof -
  have nc: "\<forall>j<Suc 0. \<not> spec_converged (Fin (1 / 2 ^ 1000)) (Fin (- (2 ^ 20))) (Fin 1) (Fin 0) j"
    using overflow_converged_0 by simp
  have lt: "Suc 0 < 100" by simp
  show ?thesis
    unfolding calculateInterestRate_Inr [OF lt overflow_converged_1 nc] overflow_iterate_2
    by (simp add: js_eval)
qed

text \<open>
  C1. Each of the four closed-form branches of \<^verbatim>\<open>solveFor\<close> computes the formula
  of the specification, in the program's arithmetic and for every state: the future
  value enters negated (\<open>fv = -futureValue\<close>), and the future-value branch negates its
  result again.
\<close>

theorem solveFor_closed_forms:
  "solveFor_result st PresentValue =
     Inr (Some (spec_presentValue (- futureValue st) (payment st)
                  (getEffectiveRate st) (numberOfPeriods st)))
   \<and> solveFor_result st FutureValue =
     Inr (Some (spec_futureValue (presentValue st) (payment st)
                  (getEffectiveRate st) (numberOfPeriods st)))
   \<and> solveFor_result st NumberOfPeriods =
     Inr (Some (spec_numberOfPeriods (presentValue st) (- futureValue st) (payment st)
                  (getEffectiveRate st)))
   \<and> solveFor_result st Payment =
     Inr (Some (spec_payment (presentValue st) (- futureValue st)
                  (getEffectiveRate st) (numberOfPeriods st)))"
  by (simp add: solveFor_result_def Let_def spec_presentValue_def spec_futureValue_def
      spec_numberOfPeriods_def spec_payment_def)

text \<open>
  With \<open>pv = -1\<close>, 12 percent compounded monthly, two periods and no payment, the
  future value is \<open>1.01\<^sup>2 = 1.0201\<close>.
\<close>

theorem solveFor_closed_forms_witness:
  "solveFor_result
     \<lparr>presentValue = Fin (- 1), futureValue = NaN, interestRate = Fin 12,
      numberOfPeriods = Fin 2, payment = Fin 0, paymentFrequency = Monthly\<rparr> FutureValue
   = Inr (Some (Fin (10201 / 10000)))"
  using solveFor_closed_forms
    [of "\<lparr>presentValue = Fin (- 1), futureValue = NaN, interestRate = Fin 12,
      numberOfPeriods = Fin 2, payment = Fin 0, paymentFrequency = Monthly\<rparr>",
      THEN conjunct2, THEN conjunct1]
  by (simp add: rate_example spec_futureValue_def js_eval power2_eq_square)

text \<open>
  C6. For a finite nominal annual rate \<open>a\<close> (a double: at most \<open>maxd\<close> in magnitude)
  the periodic rate is \<open>a / 100 / periodsPerYear\<close>, and \<^verbatim>\<open>frequencyMap\<close> is the
  table monthly 12, yearly 1, daily 365, weekly 52, semi-monthly 24, bi-weekly 26,
  semi-annually 2.
\<close>

theorem getEffectiveRate_formula:
  "(interestRate st = Fin a \<and> \<bar>a\<bar> \<le> maxd \<longrightarrow>
      getEffectiveRate st = Fin (a / 100 / periodsPerYear (paymentFrequency st)))
   \<and> map frequencyMap [Monthly, Yearly, Daily, Weekly, SemiMonthly, BiWeekly, SemiAnnually]
     = map Fin [12, 1, 365, 52, 24, 26, 2]
   \<and> map periodsPerYear [Monthly, Yearly, Daily, Weekly, SemiMonthly, BiWeekly, SemiAnnually]
     = [12, 1, 365, 52, 24, 26, 2]"
  using getEffectiveRate_finite by simp

text \<open>Six percent, semi-monthly: 0.0025 a period.\<close>

theorem getEffectiveRate_formula_witness:
  "\<bar>6 :: real\<bar> \<le> maxd \<and>
   getEffectiveRate
     \<lparr>presentValue = NaN, futureValue = NaN, interestRate = Fin 6,
      numberOfPeriods = NaN, payment = NaN, paymentFrequency = SemiMonthly\<rparr> = Fin (1 / 400)"
  using getEffectiveRate_formula
    [of "\<lparr>presentValue = NaN, futureValue = NaN, interestRate = Fin 6,
      numberOfPeriods = NaN, payment = NaN, paymentFrequency = SemiMonthly\<rparr>" 6]
  by (simp add: maxd_def)

text \<open>
  C2, as the program has it. The program has no special case for a periodic rate of
  zero. With a nominal rate of 0 the periodic rate is 0, each of the four closed-form
  branches evaluates to NaN whatever the other fields are (\<open>0 / 0\<close>, or an infinity
  over an infinity), and \<^verbatim>\<open>solveFor\<close> stores NaN in the field; nothing is thrown.
\<close>

theorem zero_rate_NaN:
  "interestRate (state app) = Fin 0 \<longrightarrow>
     getEffectiveRate (state app) = Fin 0
     \<and> (fld = PresentValue \<or> fld = FutureValue \<or> fld = NumberOfPeriods \<or> fld = Payment \<longrightarrow>
          solveFor_result (state app) fld = Inr (Some NaN)
          \<and> solveFor app fld =
              Inr \<lparr>state = set_field fld NaN (state app), lastSolved = Some fld\<rparr>)"
proof (intro impI conjI)
  assume z: "interestRate (state app) = Fin 0"
  then show "getEffectiveRate (state app) = Fin 0" by (rule getEffectiveRate_zero)
  assume f: "fld = PresentValue \<or> fld = FutureValue \<or> fld = NumberOfPeriods \<or> fld = Payment"
  then show r: "solveFor_result (state app) fld = Inr (Some NaN)"
    using zero_rate_results [OF z] by auto
  show "solveFor app fld =
      Inr \<lparr>state = set_field fld NaN (state app), lastSolved = Some fld\<rparr>"
    using solveFor_stores [OF r] f by auto
qed

text \<open>Solving for the payment of a loan of 1000 over 10 periods at rate 0.\<close>

theorem zero_rate_NaN_witness:
  "solveFor
     \<lparr>state = \<lparr>presentValue = Fin (- 1000), futureValue = Fin 0, interestRate = Fin 0,
        numberOfPeriods = Fin 10, payment = NaN, paymentFrequency = Monthly\<rparr>,
      lastSolved = None\<rparr> Payment
   = Inr \<lparr>state = \<lparr>presentValue = Fin (- 1000), futureValue = Fin 0, interestRate = Fin 0,
        numberOfPeriods = Fin 10, payment = NaN, paymentFrequency = Monthly\<rparr>,
      lastSolved = Some Payment\<rparr>"
  using zero_rate_NaN
    [of "\<lparr>state = \<lparr>presentValue = Fin (- 1000), futureValue = Fin 0, interestRate = Fin 0,
        numberOfPeriods = Fin 10, payment = NaN, paymentFrequency = Monthly\<rparr>,
      lastSolved = None\<rparr>" Payment]
  by simp

text \<open>
  C2 as stated fails: at rate 0, with \<open>pv = -1000\<close>, \<open>fv = 0\<close>, \<open>n = 10\<close>, the
  payment branch gives NaN where the claim has \<open>(pv + fv) / n\<close>, and with
  \<open>pmt = 50\<close> the future-value branch gives NaN where the claim has \<open>-pv - pmt * n\<close>.
\<close>

theorem zero_rate_counterexample:
  "solveFor_result
     \<lparr>presentValue = Fin (- 1000), futureValue = Fin 0, interestRate = Fin 0,
      numberOfPeriods = Fin 10, payment = Fin 0, paymentFrequency = Monthly\<rparr> Payment
     = Inr (Some NaN)
   \<and> solveFor_result
     \<lparr>presentValue = Fin (- 1000), futureValue = NaN, interestRate = Fin 0,
      numberOfPeriods = Fin 10, payment = Fin 50, paymentFrequency = Monthly\<rparr> FutureValue
     = Inr (Some NaN)"
  by (simp add: solveFor_result_def getEffectiveRate_def js_eval)

text \<open>
  C7, as the program has it. \<^verbatim>\<open>solveFor\<close> has no InvalidInputs condition and does
  not look at its inputs before computing: the field to solve for is its argument and
  the other four are read as they are. A closed-form solve never fails; the only failure
  of \<^verbatim>\<open>solveFor\<close> is the non-convergence error of the interest-rate branch. When a
  known field is NaN, a closed-form solve stores NaN in the solved field, and the
  interest-rate solve fails with the non-convergence error.
\<close>

theorem solveFor_no_validation:
  "(fld \<noteq> InterestRate \<longrightarrow> (\<exists>app'. solveFor app fld = Inr app'))
   \<and> (solveFor app fld = Inl e \<longrightarrow>
        fld = InterestRate \<and> e = Error ''Interest rate calculation did not converge'')
   \<and> (NaN \<in> set (known_fields (state app) fld) \<longrightarrow>
        (fld = PresentValue \<or> fld = FutureValue \<or> fld = NumberOfPeriods \<or> fld = Payment \<longrightarrow>
           solveFor_result (state app) fld = Inr (Some NaN)
           \<and> solveFor app fld =
               Inr \<lparr>state = set_field fld NaN (state app), lastSolved = Some fld\<rparr>)
        \<and> (fld = InterestRate \<longrightarrow>
           solveFor app fld = Inl (Error ''Interest rate calculation did not converge'')))"
proof (intro conjI impI)
  assume "fld \<noteq> InterestRate"
  then show "\<exists>app'. solveFor app fld = Inr app'" by (rule solveFor_total)
next
  assume "solveFor app fld = Inl e"
  then show "fld = InterestRate" "e = Error ''Interest rate calculation did not converge''"
    using solveFor_Inl by blast+
next
  assume k: "NaN \<in> set (known_fields (state app) fld)"
    and f: "fld = PresentValue \<or> fld = FutureValue \<or> fld = NumberOfPeriods \<or> fld = Payment"
  show r: "solveFor_result (state app) fld = Inr (Some NaN)"
    using k f by (rule NaN_closed_forms)
  show "solveFor app fld =
      Inr \<lparr>state = set_field fld NaN (state app), lastSolved = Some fld\<rparr>"
    using solveFor_stores [OF r] f by auto
next
  assume "NaN \<in> set (known_fields (state app) fld)" "fld = InterestRate"
  then show "solveFor app fld = Inl (Error ''Interest rate calculation did not converge'')"
    using NaN_solveFor_InterestRate by blast
qed

text \<open>An empty payment, solving for the future value and for the interest rate.\<close>

theorem solveFor_no_validation_witness:
  "NaN \<in> set (known_fields
       \<lparr>presentValue = Fin (- 1000), futureValue = NaN, interestRate = Fin 12,
        numberOfPeriods = Fin 2, payment = NaN, paymentFrequency = Monthly\<rparr> FutureValue)
   \<and> solveFor
     \<lparr>state = \<lparr>presentValue = Fin (- 1000), futureValue = NaN, interestRate = Fin 12,
        numberOfPeriods = Fin 2, payment = NaN, paymentFrequency = Monthly\<rparr>,
      lastSolved = None\<rparr> FutureValue
   = Inr \<lparr>state = \<lparr>presentValue = Fin (- 1000), futureValue = NaN, interestRate = Fin 12,
        numberOfPeriods = Fin 2, payment = NaN, paymentFrequency = Monthly\<rparr>,
      lastSolved = Some FutureValue\<rparr>
   \<and> NaN \<in> set (known_fields
       \<lparr>presentValue = Fin (- 1000), futureValue = NaN, interestRate = NaN,
        numberOfPeriods = Fin 2, payment = Fin 0, paymentFrequency = Monthly\<rparr> InterestRate)
   \<and> solveFor
     \<lparr>state = \<lparr>presentValue = Fin (- 1000), futureValue = NaN, interestRate = NaN,
        numberOfPeriods = Fin 2, payment = Fin 0, paymentFrequency = Monthly\<rparr>,
      lastSolved = None\<rparr> InterestRate
   = Inl (Error ''Interest rate calculation did not converge'')"
proof -
  let ?a = "\<lparr>state = \<lparr>presentValue = Fin (- 1000), futureValue = NaN, interestRate = Fin 12,
        numberOfPeriods = Fin 2, payment = NaN, paymentFrequency = Monthly\<rparr>,
      lastSolved = None\<rparr>"
  let ?b = "\<lparr>state = \<lparr>presentValue = Fin (- 1000), futureValue = NaN, interestRate = NaN,
        numberOfPeriods = Fin 2, payment = Fin 0, paymentFrequency = Monthly\<rparr>,
      lastSolved = None\<rparr>"
  have k1: "NaN \<in> set (known_fields (state ?a) FutureValue)"
    by (simp add: known_fields_def)
  have k2: "NaN \<in> set (known_fields (state ?b) InterestRate)"
    by (simp add: known_fields_def)
  have f: "FutureValue = PresentValue \<or> FutureValue = FutureValue
      \<or> FutureValue = NumberOfPeriods \<or> FutureValue = Payment"
    by simp
  note t1 = solveFor_no_validation [of FutureValue ?a, THEN conjunct2, THEN conjunct2,
      THEN mp, OF k1, THEN conjunct1, THEN mp, OF f, THEN conjunct2]
  note t2 = solveFor_no_validation [of InterestRate ?b, THEN conjunct2, THEN conjunct2,
      THEN mp, OF k2, THEN conjunct2, THEN mp, OF refl]
  have c1: "solveFor ?a FutureValue
     = Inr \<lparr>state = \<lparr>presentValue = Fin (- 1000), futureValue = NaN, interestRate = Fin 12,
        numberOfPeriods = Fin 2, payment = NaN, paymentFrequency = Monthly\<rparr>,
      lastSolved = Some FutureValue\<rparr>"
    unfolding t1 by simp
  from k1 have k1': "NaN \<in> set (known_fields
       \<lparr>presentValue = Fin (- 1000), futureValue = NaN, interestRate = Fin 12,
        numberOfPeriods = Fin 2, payment = NaN, paymentFrequency = Monthly\<rparr> FutureValue)"
    by simp
  from k2 have k2': "NaN \<in> set (known_fields
       \<lparr>presentValue = Fin (- 1000), futureValue = NaN, interestRate = NaN,
        numberOfPeriods = Fin 2, payment = Fin 0, paymentFrequency = Monthly\<rparr> InterestRate)"
    by simp
  from k1' c1 k2' t2 show ?thesis by (intro conjI)
qed

text \<open>
  C7 as stated fails: with the present value empty (NaN), the future value empty as
  well and an infinite payment, solving for the future value does not fail; it stores
  NaN.
\<close>

theorem solveFor_no_validation_counterexample:
  "solveFor
     \<lparr>state = \<lparr>presentValue = NaN, futureValue = NaN, interestRate = Fin 12,
        numberOfPeriods = Fin 2, payment = PInf, paymentFrequency = Monthly\<rparr>,
      lastSolved = None\<rparr> FutureValue
   = Inr \<lparr>state = \<lparr>presentValue = NaN, futureValue = NaN, interestRate = Fin 12,
        numberOfPeriods = Fin 2, payment = PInf, paymentFrequency = Monthly\<rparr>,
      lastSolved = Some FutureValue\<rparr>"
  by (simp add: solveFor_def solveFor_result_def getEffectiveRate_def)

text \<open>
  C9, as the program has it. \<^verbatim>\<open>solveFor\<close> itself rounds: it stores
  \<^verbatim>\<open>result.toFixed(3)\<close> for the interest rate and \<^verbatim>\<open>result.toFixed(2)\<close> for the
  other fields, where \<^verbatim>\<open>result\<close> is the unrounded value of the branch. For a finite
  \<open>x\<close> below \<open>10\<^sup>2\<^sup>1\<close> in magnitude \<^verbatim>\<open>toFixed(d)\<close> is a multiple of \<open>10\<^sup>-\<^sup>d\<close> within
  half of \<open>10\<^sup>-\<^sup>d\<close> of \<open>x\<close>; infinities and NaN are stored as they are.
\<close>

theorem solveFor_rounds:
  "(solveFor_result (state app) fld = Inr (Some result) \<longrightarrow>
      solveFor app fld =
        Inr \<lparr>state = set_field fld
                 (if fld = InterestRate then toFixed 3 result else toFixed 2 result)
                 (state app),
             lastSolved = Some fld\<rparr>)
   \<and> (\<bar>x\<bar> < 10 ^ 21 \<longrightarrow>
      (\<exists>y. toFixed d (Fin x) = Fin y \<and> \<bar>y - x\<bar> \<le> 1 / (2 * 10 ^ d) \<and> y * 10 ^ d \<in> \<int>))
   \<and> toFixed d PInf = PInf \<and> toFixed d NInf = NInf \<and> toFixed d NaN = NaN"
  using toFixed_rounds by (simp add: solveFor_def)

text \<open>The future value 1.0201 is stored as 1.02.\<close>

theorem solveFor_rounds_witness:
  "solveFor
     \<lparr>state = \<lparr>presentValue = Fin (- 1), futureValue = NaN, interestRate = Fin 12,
        numberOfPeriods = Fin 2, payment = Fin 0, paymentFrequency = Monthly\<rparr>,
      lastSolved = None\<rparr> FutureValue
   = Inr \<lparr>state = \<lparr>presentValue = Fin (- 1), futureValue = Fin (51 / 50),
        interestRate = Fin 12, numberOfPeriods = Fin 2, payment = Fin 0,
        paymentFrequency = Monthly\<rparr>,
      lastSolved = Some FutureValue\<rparr>
   \<and> \<bar>10201 / 10000 :: real\<bar> < 10 ^ 21
   \<and> (\<exists>y. toFixed 2 (Fin (10201 / 10000)) = Fin y
         \<and> \<bar>y - 10201 / 10000\<bar> \<le> 1 / (2 * 10 ^ 2) \<and> y * 10 ^ 2 \<in> \<int>)"
proof -
  let ?a = "\<lparr>state = \<lparr>presentValue = Fin (- 1), futureValue = NaN, interestRate = Fin 12,
        numberOfPeriods = Fin 2, payment = Fin 0, paymentFrequency = Monthly\<rparr>,
      lastSolved = None\<rparr>"
  have r: "solveFor_result (state ?a) FutureValue = Inr (Some (Fin (10201 / 10000)))"
    using rounding_example_result by simp
  note t1 = solveFor_rounds [of ?a FutureValue "Fin (10201 / 10000)", THEN conjunct1,
      THEN mp, OF r]
  have b: "\<bar>10201 / 10000 :: real\<bar> < 10 ^ 21" by simp
  note t2 = solveFor_rounds [of _ _ _ "10201 / 10000" 2, THEN conjunct2, THEN conjunct1,
      THEN mp, OF b]
  have c1: "solveFor ?a FutureValue
     = Inr \<lparr>state = \<lparr>presentValue = Fin (- 1), futureValue = Fin (51 / 50),
        interestRate = Fin 12, numberOfPeriods = Fin 2, payment = Fin 0,
        paymentFrequency = Monthly\<rparr>,
      lastSolved = Some FutureValue\<rparr>"
    unfolding t1 using toFixed_example by simp
  from c1 b t2 show ?thesis by (intro conjI)
qed

text \<open>
  C9 as stated fails: with \<open>pv = -1\<close>, 12 percent monthly, two periods and no
  payment the branch computes 1.0201 and \<^verbatim>\<open>solveFor\<close> stores 1.02.
\<close>

theorem solveFor_rounds_counterexample:
  "solveFor_result
     \<lparr>presentValue = Fin (- 1), futureValue = NaN, interestRate = Fin 12,
      numberOfPeriods = Fin 2, payment = Fin 0, paymentFrequency = Monthly\<rparr> FutureValue
   = Inr (Some (Fin (10201 / 10000)))
   \<and> solveFor
     \<lparr>state = \<lparr>presentValue = Fin (- 1), futureValue = NaN, interestRate = Fin 12,
        numberOfPeriods = Fin 2, payment = Fin 0, paymentFrequency = Monthly\<rparr>,
      lastSolved = None\<rparr> FutureValue
   = Inr \<lparr>state = \<lparr>presentValue = Fin (- 1), futureValue = Fin (51 / 50),
        interestRate = Fin 12, numberOfPeriods = Fin 2, payment = Fin 0,
        paymentFrequency = Monthly\<rparr>,
      lastSolved = Some FutureValue\<rparr>"
  using rounding_example_result toFixed_example
  by (simp add: solveFor_def)

section \<open>Round trips\<close>

text \<open>
  The round-trip property of the specification (solving for a field of a tuple that
  satisfies the fundamental identity gives the field back within a relative tolerance
  of 1e-4) bounds the rounding error of the program's arithmetic. Finite values are exact
  reals here, so that bound is not a statement of this model, and none is made.

  At the special values the property fails whatever the rounding: \<open>pv = -100\<close>,
  \<open>fv = 100\<close>, \<open>r = 0.01\<close>, \<open>n = 12\<close>, \<open>pmt = 1\<close> (an interest-only loan)
  satisfies the identity, and solving for the number of periods gives NaN (\<open>0 / 0\<close>
  under the logarithm), which is within no tolerance of 12.
\<close>

lemma interest_only_roundtrip:
  "tvm_identity (- 100) 100 (1 / 100) 12 1
   \<and> solveFor_result
     \<lparr>presentValue = Fin (- 100), futureValue = Fin 100, interestRate = Fin 12,
      numberOfPeriods = Fin 12, payment = Fin 1, paymentFrequency = Monthly\<rparr>
     NumberOfPeriods = Inr (Some NaN)
   \<and> \<not> within_rel (1 / 10 ^ 4) NaN 12"
proof (intro conjI)
  show "tvm_identity (- 100) 100 (1 / 100) 12 1"
    by (simp add: tvm_identity_def)
  show "solveFor_result
     \<lparr>presentValue = Fin (- 100), futureValue = Fin 100, interestRate = Fin 12,
      numberOfPeriods = Fin 12, payment = Fin 1, paymentFrequency = Monthly\<rparr>
     NumberOfPeriods = Inr (Some NaN)"
    by (simp add: solveFor_result_def rate_example js_eval)
  show "\<not> within_rel (1 / 10 ^ 4) NaN 12" by simp
qed

end
